theory Spec2Isabelle
  imports Main "HOL-Library.Word"
begin

section \<open>Condor: the CXI stack writer and the CCP4 map reader\<close>

text \<open>
  A shallow embedding of \<^verbatim>\<open>src/condor/utils/cxiwriter.py\<close>: the function
  \<^verbatim>\<open>read_map\<close> and the class \<^verbatim>\<open>CXIWriter\<close>. Python exceptions are values of the
  type \<open>error\<close>; a function that can raise returns \<open>error + 'a\<close> with \<open>Inl\<close> for the
  exception. The calls of \<^verbatim>\<open>log_warning\<close> are kept as a list of warnings, in the order
  in which they are issued; the calls of \<^verbatim>\<open>log_debug\<close> have no effect on any result
  and are left out.
\<close>

subsection \<open>Exceptions and warnings\<close>

datatype error =
    ValueError string
  | IndexError string
  | TypeError string
  | NameError string
  | AttributeError string
  | KeyError string
  | ZeroDivisionError

datatype warning =
    MapModeMayNotWork int
  | OmittingSymmetryOperations
  | CouldNotSaveDataset "string list"
  | FileExistsOverwritten string

subsection \<open>numpy element types\<close>

text \<open>
  The element types that occur: the ones that \<^verbatim>\<open>numpy.dtype(type(x))\<close> gives for a Python
  scalar, the ones that \<^verbatim>\<open>numpy.asarray\<close> infers for a list, and the ones named in the
  table of \<^verbatim>\<open>read_map\<close>. \<open>ObjectO\<close> is numpy's object type, \<open>BytesS\<close> its byte
  string type and \<open>VlenStr\<close> the variable-length string type of h5py.
\<close>

datatype dtype =
    Bool8 | Int32 | Int64 | Float32 | Float64 | Complex64 | Complex128
  | BytesS | VlenStr | ObjectO

fun itemsize :: "dtype \<Rightarrow> nat" where
  "itemsize Bool8 = 1"
| "itemsize Int32 = 4"
| "itemsize Int64 = 8"
| "itemsize Float32 = 4"
| "itemsize Float64 = 8"
| "itemsize Complex64 = 8"
| "itemsize Complex128 = 16"
| "itemsize BytesS = 1"
| "itemsize VlenStr = 8"
| "itemsize ObjectO = 8"

text \<open>
  \<^verbatim>\<open>numpy.dtype(name)\<close> for the strings of the mode table of \<^verbatim>\<open>read_map\<close>. In numpy
  \<^verbatim>\<open>"i8"\<close> is the 8-byte integer; \<^verbatim>\<open>"cint32"\<close> names no numpy type and raises TypeError.
\<close>

definition numpy_dtype :: "string \<Rightarrow> error + dtype" where
  "numpy_dtype name =
     (if name = ''i8'' then Inr Int64
      else if name = ''int32'' then Inr Int32
      else if name = ''float32'' then Inr Float32
      else if name = ''complex64'' then Inr Complex64
      else Inl (TypeError ''data type not understood''))"

subsection \<open>Python indexing\<close>

text \<open>
  \<^verbatim>\<open>xs[i]\<close> on a list or a one-dimensional array: a negative index counts from the end,
  an index out of range raises IndexError.
\<close>

definition py_getitem :: "'a list \<Rightarrow> int \<Rightarrow> error + 'a" where
  "py_getitem xs i =
     (if 0 \<le> i \<and> i < int (length xs) then Inr (xs ! nat i)
      else if i < 0 \<and> - int (length xs) \<le> i then Inr (xs ! nat (int (length xs) + i))
      else Inl (IndexError ''index out of range''))"

subsection \<open>Bytes and numpy.frombuffer\<close>

type_synonym byte = "8 word"

text \<open>A 32-bit signed integer from four bytes, least significant byte first.\<close>

definition le_int32 :: "byte list \<Rightarrow> int" where
  "le_int32 bs =
     (let u = (\<Sum>k \<leftarrow> [0 ..< length bs]. int (unat (bs ! k)) * 256 ^ k)
      in if u < 2 ^ 31 then u else u - 2 ^ 32)"

text \<open>The buffer cut into items of \<open>n\<close> bytes each.\<close>

function chunks :: "nat \<Rightarrow> 'a list \<Rightarrow> 'a list list" where
  "chunks n xs = (if n = 0 \<or> xs = [] then [] else take n xs # chunks n (drop n xs))"
  by pat_completeness auto
termination
  by (relation "measure (\<lambda>(n, xs). length xs)") auto

declare chunks.simps [simp del]

text \<open>
  An array as numpy holds it: element type, shape, and the items in C order.
  \<^verbatim>\<open>numpy.frombuffer(buf, dtype)\<close> raises ValueError unless the length of the buffer
  is a multiple of the item size; an item is kept as its bytes, in file order.
\<close>

record 'e ndarray =
  nd_dtype :: dtype
  nd_shape :: "nat list"
  nd_items :: "'e list"

definition frombuffer :: "byte list \<Rightarrow> dtype \<Rightarrow> error + byte list ndarray" where
  "frombuffer buf dt =
     (if length buf mod itemsize dt \<noteq> 0
      then Inl (ValueError ''buffer size must be a multiple of element size'')
      else Inr \<lparr>nd_dtype = dt, nd_shape = [length buf div itemsize dt],
                nd_items = chunks (itemsize dt) buf\<rparr>)"

text \<open>
  \<^verbatim>\<open>numpy.frombuffer(header_buf, dtype="int32")\<close>, with the items read as integers.
\<close>

definition frombuffer_int32 :: "byte list \<Rightarrow> error + int list" where
  "frombuffer_int32 buf =
     (case frombuffer buf Int32 of
        Inl e \<Rightarrow> Inl e
      | Inr a \<Rightarrow> Inr (map le_int32 (nd_items a)))"

text \<open>
  \<^verbatim>\<open>a.reshape(shape)\<close> as numpy's \<^verbatim>\<open>_fix_unknown_dimension\<close> decides it: a negative
  entry of the shape is an unknown dimension, of which there may be one; the known
  dimensions must multiply to the number of items, or divide it when one is unknown.
\<close>

definition reshape :: "'e ndarray \<Rightarrow> int list \<Rightarrow> error + 'e ndarray" where
  "reshape a newshape =
     (let s_original = int (length (nd_items a));
          unknown = filter (\<lambda>d. d < 0) newshape;
          s_known = prod_list (filter (\<lambda>d. 0 \<le> d) newshape)
      in if 1 < length unknown
         then Inl (ValueError ''can only specify one unknown dimension'')
         else if unknown = []
         then (if s_original \<noteq> s_known
               then Inl (ValueError ''cannot reshape array'')
               else Inr (a\<lparr>nd_shape := map nat newshape\<rparr>))
         else (if s_known = 0 \<or> s_original mod s_known \<noteq> 0
               then Inl (ValueError ''cannot reshape array'')
               else Inr (a\<lparr>nd_shape :=
                       map (\<lambda>d. if d < 0 then nat (s_original div s_known) else nat d)
                         newshape\<rparr>)))"

subsection \<open>read\_map\<close>

text \<open>
  \<^verbatim>\<open>read_map\<close> reads two names that it does not assign, \<^verbatim>\<open>dtype_mode\<close> (line 160)
  and \<^verbatim>\<open>dx\<close> (line 170). Python looks such a name up among the globals of the module
  when the line runs and raises NameError when it is not bound. The globals that matter
  are a parameter of the model; \<open>module_globals\<close> is the module as the source file
  defines it, which binds neither name.
\<close>

record 'x map_globals =
  g_dtype_mode :: "int option"
  g_dx :: "'x option"

definition module_globals :: "unit map_globals" where
  "module_globals = \<lparr>g_dtype_mode = None, g_dx = None\<rparr>"

definition mode_table :: "string list" where
  "mode_table = [''i8'', ''int32'', ''float32'', ''cint32'', ''complex64'', ''i8'']"

text \<open>
  The argument \<open>file\<close> is the content of the file \<^verbatim>\<open>filename\<close>. The result is the
  list of warnings issued and either the exception raised or the pair returned.
  \<^verbatim>\<open>f.read(n)\<close> returns at most \<open>n\<close> bytes and moves on by as many; the native byte
  order is taken to be little-endian.
\<close>

definition read_map ::
  "'x map_globals \<Rightarrow> byte list \<Rightarrow> warning list \<times> (error + (byte list ndarray \<times> 'x))" where
  "read_map g file =
     (let header_buf = take 1024 file;
          f1 = drop 1024 file
      in case frombuffer_int32 header_buf of
           Inl e \<Rightarrow> ([], Inl e)
         | Inr hw \<Rightarrow>
     (let NCNRNS = take 3 hw
      in case py_getitem hw 3 of
           Inl e \<Rightarrow> ([], Inl e)
         | Inr MODE \<Rightarrow>
     (case py_getitem mode_table MODE of
           Inl e \<Rightarrow> ([], Inl e)
         | Inr dtype \<Rightarrow>
     (case g_dtype_mode g of
           None \<Rightarrow> ([], Inl (NameError ''dtype_mode''))
         | Some dtype_mode \<Rightarrow>
     (let log1 = (if dtype_mode \<noteq> 0 \<and> dtype_mode \<noteq> 2
                  then [MapModeMayNotWork MODE] else [])
      in case py_getitem hw 23 of
           Inl e \<Rightarrow> (log1, Inl e)
         | Inr NSYMBT \<Rightarrow>
     (let log2 = log1 @ (if 0 < NSYMBT then [OmittingSymmetryOperations] else []);
          f2 = (if 0 < NSYMBT then drop (nat NSYMBT) f1 else f1);
          data = f2
      in case numpy_dtype dtype of
           Inl e \<Rightarrow> (log2, Inl e)
         | Inr dt \<Rightarrow>
     (case frombuffer data dt of
           Inl e \<Rightarrow> (log2, Inl e)
         | Inr a \<Rightarrow>
     (case reshape a NCNRNS of
           Inl e \<Rightarrow> (log2, Inl e)
         | Inr data \<Rightarrow>
     (case g_dx g of
           None \<Rightarrow> (log2, Inl (NameError ''dx''))
         | Some dx \<Rightarrow> (log2, Inr (data, dx)))))))))))"

subsection \<open>Records: the values that CXIWriter.write receives\<close>

text \<open>
  A Python float is kept as the 64 bits of its IEEE double: the writer stores floats
  and never computes with them. A list stands for a list or a tuple. A numpy array is
  its element type and its items, nested along the axes; a dict is the list of its
  items in the order in which \<^verbatim>\<open>D.keys()\<close> yields them.
\<close>

datatype scalar = PyBool bool | PyInt int | PyFloat "64 word" | PyStr string

datatype 'e nd = Elem 'e | Arr "'e nd list"

datatype pyval =
    PyScalar scalar
  | PyNone
  | PyList "pyval list"
  | NdArray dtype "scalar nd"
  | PyDict "(string \<times> pyval) list"

text \<open>\<^verbatim>\<open>a.shape\<close>, read off the first item along each axis, and \<^verbatim>\<open>a.ndim\<close>.\<close>

fun shape_of :: "'e nd \<Rightarrow> nat list" where
  "shape_of (Elem x) = []"
| "shape_of (Arr xs) = length xs # (case xs of [] \<Rightarrow> [] | x # _ \<Rightarrow> shape_of x)"

definition ndim :: "'e nd \<Rightarrow> nat" where
  "ndim a = length (shape_of a)"

text \<open>\<^verbatim>\<open>numpy.isscalar\<close>: true of Python numbers and strings, false of None, of
  lists and of arrays (also of arrays without axes).\<close>

fun isscalar :: "pyval \<Rightarrow> bool" where
  "isscalar (PyScalar s) = True"
| "isscalar v = False"

text \<open>\<^verbatim>\<open>isinstance(v, dict)\<close>.\<close>

fun is_dict :: "pyval \<Rightarrow> bool" where
  "is_dict (PyDict d) = True"
| "is_dict v = False"

text \<open>\<^verbatim>\<open>numpy.dtype(type(x))\<close> for a Python scalar; a string is encoded first, and the
  type of a byte string is \<^verbatim>\<open>S\<close>.\<close>

fun dtype_of_type :: "scalar \<Rightarrow> dtype" where
  "dtype_of_type (PyBool b) = Bool8"
| "dtype_of_type (PyInt n) = Int64"
| "dtype_of_type (PyFloat x) = Float64"
| "dtype_of_type (PyStr s) = BytesS"

text \<open>
  The element type that numpy gives to an array built from items of two types:
  strings absorb everything, a Boolean gives way to the other type, and numbers go to
  the smallest type that holds both.
\<close>

fun dtype_kind :: "dtype \<Rightarrow> nat" where
  "dtype_kind Bool8 = 0"
| "dtype_kind Int32 = 1"
| "dtype_kind Int64 = 1"
| "dtype_kind Float32 = 2"
| "dtype_kind Float64 = 2"
| "dtype_kind Complex64 = 3"
| "dtype_kind Complex128 = 3"
| "dtype_kind BytesS = 4"
| "dtype_kind VlenStr = 4"
| "dtype_kind ObjectO = 5"

definition promote :: "dtype \<Rightarrow> dtype \<Rightarrow> dtype" where
  "promote a b =
     (if a = b then a
      else if a = ObjectO \<or> b = ObjectO then ObjectO
      else if dtype_kind a = 4 \<or> dtype_kind b = 4 then BytesS
      else if a = Bool8 then b
      else if b = Bool8 then a
      else if dtype_kind a = 3 \<or> dtype_kind b = 3
      then (if {a, b} = {Complex64, Float32} then Complex64 else Complex128)
      else if dtype_kind a = 2 \<or> dtype_kind b = 2 then Float64
      else Int64)"

text \<open>
  \<^verbatim>\<open>numpy.asarray(v)\<close> where it yields an array with a proper element type: the items
  of a list must all convert, to arrays of one shape. \<open>None\<close> stands for the cases in
  which numpy falls back to an array of Python objects: None, a dict, a ragged list.
  An empty list gives an empty array of floats.
\<close>

fun asarray_typed :: "pyval \<Rightarrow> (dtype \<times> scalar nd) option" where
  "asarray_typed (PyScalar s) = Some (dtype_of_type s, Elem s)"
| "asarray_typed PyNone = None"
| "asarray_typed (PyDict d) = None"
| "asarray_typed (NdArray dt a) = (if dt = ObjectO then None else Some (dt, a))"
| "asarray_typed (PyList vs) =
     (let rs = map asarray_typed vs
      in if list_ex (\<lambda>r. r = None) rs then None
         else (case map the rs of
                 [] \<Rightarrow> Some (Float64, Arr [])
               | p # ps \<Rightarrow>
                   if list_all (\<lambda>q. shape_of (snd q) = shape_of (snd p)) ps
                   then Some (fold promote (map fst ps) (fst p), Arr (map snd (p # ps)))
                   else None))"

text \<open>
  \<^verbatim>\<open>numpy.asarray(v)\<close>. The items of an array of objects are not represented: the
  source drops such an array at once (lines 87 to 91).
\<close>

definition asarray :: "pyval \<Rightarrow> dtype \<times> scalar nd" where
  "asarray v = (case asarray_typed v of None \<Rightarrow> (ObjectO, Arr []) | Some r \<Rightarrow> r)"

text \<open>\<^verbatim>\<open>h5py.h5t.py_create(dtype, logical=1)\<close>: there is no HDF5 type for numpy's
  object type.\<close>

definition py_create :: "dtype \<Rightarrow> error + unit" where
  "py_create dt =
     (if dt = ObjectO then Inl (TypeError ''Object dtype has no native HDF5 equivalent'')
      else Inr ())"

subsection \<open>The container: h5py groups and datasets\<close>

text \<open>
  A dataset has its shape, the maximal shape it may be resized to (\<open>None\<close> for an
  axis without bound), its element type, the keyword arguments it was created with,
  its attributes and its items. An item that was never written is \<open>None\<close>: HDF5
  reads it back as the fill value. Items are stored as the Python scalars that came
  in; the conversion to the element type of the dataset is not modelled. A group is
  the list of its members; the file is its root group.
\<close>

record dataset =
  ds_shape :: "nat list"
  ds_maxshape :: "nat option list"
  ds_dtype :: dtype
  ds_kwargs :: "(string \<times> string) list"
  ds_attrs :: "(string \<times> string list) list"
  ds_data :: "scalar option nd"

datatype h5obj = Dataset dataset | Group "(string \<times> h5obj) list"

text \<open>
  A path is the list of the names along it: \<^verbatim>\<open>"/"\<close> is \<open>[]\<close>, and
  \<^verbatim>\<open>group_prefix + k + "/"\<close> is \<open>group_prefix @ [k]\<close>. Keys are taken to be plain
  names, without \<^verbatim>\<open>/\<close>.
\<close>

type_synonym path = "string list"

fun alist_update :: "'k \<Rightarrow> 'v \<Rightarrow> ('k \<times> 'v) list \<Rightarrow> ('k \<times> 'v) list" where
  "alist_update k v [] = [(k, v)]"
| "alist_update k v ((k', v') # ps) =
     (if k' = k then (k, v) # ps else (k', v') # alist_update k v ps)"

fun h5_get :: "h5obj \<Rightarrow> path \<Rightarrow> h5obj option" where
  "h5_get obj [] = Some obj"
| "h5_get (Dataset d) (k # ks) = None"
| "h5_get (Group ms) (k # ks) =
     (case map_of ms k of None \<Rightarrow> None | Some child \<Rightarrow> h5_get child ks)"

text \<open>Put an object at a path whose parent is a group of the file.\<close>

fun h5_put :: "h5obj \<Rightarrow> path \<Rightarrow> h5obj \<Rightarrow> h5obj" where
  "h5_put obj [] new = new"
| "h5_put (Dataset d) (k # ks) new = Dataset d"
| "h5_put (Group ms) (k # ks) new =
     (case map_of ms k of
        None \<Rightarrow> (if ks = [] then Group (ms @ [(k, new)]) else Group ms)
      | Some child \<Rightarrow> Group (alist_update k (h5_put child ks new) ms))"

text \<open>
  \<^verbatim>\<open>k in self._f[group_prefix]\<close>. What h5py does when the object at the prefix is a
  dataset is not a membership test of names; the model raises TypeError there.
\<close>

definition h5_contains :: "h5obj \<Rightarrow> path \<Rightarrow> string \<Rightarrow> error + bool" where
  "h5_contains f group_prefix k =
     (case h5_get f group_prefix of
        None \<Rightarrow> Inl (KeyError ''Unable to open object'')
      | Some (Dataset d) \<Rightarrow> Inl (TypeError ''not a group'')
      | Some (Group ms) \<Rightarrow> Inr (map_of ms k \<noteq> None))"

text \<open>The parent of a new object must be a group of the file.\<close>

definition parent_is_group :: "h5obj \<Rightarrow> path \<Rightarrow> bool" where
  "parent_is_group f name =
     (name \<noteq> [] \<and> (case h5_get f (butlast name) of Some (Group ms) \<Rightarrow> True | _ \<Rightarrow> False))"

text \<open>\<^verbatim>\<open>self._f.create_group(name)\<close>: h5py raises ValueError when the name is taken.\<close>

definition create_group :: "h5obj \<Rightarrow> path \<Rightarrow> error + h5obj" where
  "create_group f name =
     (if h5_get f name \<noteq> None
      then Inl (ValueError ''Unable to create group (name already exists)'')
      else if \<not> parent_is_group f name
      then Inl (KeyError ''Unable to create group (parent is not a group)'')
      else Inr (h5_put f name (Group [])))"

primrec full :: "nat list \<Rightarrow> 'e \<Rightarrow> 'e nd" where
  "full [] x = Elem x"
| "full (n # s) x = Arr (replicate n (full s x))"

text \<open>\<^verbatim>\<open>self._f.create_dataset(name, shape, maxshape=maxshape, dtype=dtype, **kwargs)\<close>.\<close>

definition create_dataset ::
  "h5obj \<Rightarrow> path \<Rightarrow> nat list \<Rightarrow> nat option list \<Rightarrow> dtype \<Rightarrow> (string \<times> string) list
     \<Rightarrow> error + h5obj" where
  "create_dataset f name shape maxshape dt kwargs =
     (if h5_get f name \<noteq> None
      then Inl (ValueError ''Unable to create dataset (name already exists)'')
      else if \<not> parent_is_group f name
      then Inl (KeyError ''Unable to create dataset (parent is not a group)'')
      else if dt = ObjectO
      then Inl (TypeError ''Object dtype has no native HDF5 equivalent'')
      else Inr (h5_put f name
             (Dataset \<lparr>ds_shape = shape, ds_maxshape = maxshape, ds_dtype = dt,
                       ds_kwargs = kwargs, ds_attrs = [], ds_data = full shape None\<rparr>)))"

text \<open>\<^verbatim>\<open>self._f[name]\<close> where the source goes on to use it as a dataset.\<close>

definition h5_dataset :: "h5obj \<Rightarrow> path \<Rightarrow> error + dataset" where
  "h5_dataset f name =
     (case h5_get f name of
        None \<Rightarrow> Inl (KeyError ''Unable to open object'')
      | Some (Group ms) \<Rightarrow> Inl (AttributeError ''Group object has no such attribute'')
      | Some (Dataset d) \<Rightarrow> Inr d)"

text \<open>\<^verbatim>\<open>self._f[name].attrs.modify(attr, value)\<close>.\<close>

definition attrs_modify :: "h5obj \<Rightarrow> path \<Rightarrow> string \<Rightarrow> string list \<Rightarrow> error + h5obj" where
  "attrs_modify f name attr val =
     (case h5_dataset f name of
        Inl e \<Rightarrow> Inl e
      | Inr d \<Rightarrow> Inr (h5_put f name (Dataset (d\<lparr>ds_attrs := alist_update attr val (ds_attrs d)\<rparr>))))"

text \<open>
  The items of a dataset after \<^verbatim>\<open>resize\<close>: along each axis the items beyond the new
  length are dropped and the new places are unwritten.
\<close>

primrec resize_nd :: "'e nd \<Rightarrow> nat list \<Rightarrow> 'e \<Rightarrow> 'e nd" where
  "resize_nd (Elem x) s fill = Elem x"
| "resize_nd (Arr xs) s fill =
     (case s of
        [] \<Rightarrow> Arr xs
      | n # s' \<Rightarrow>
          Arr (take n (map (\<lambda>a. resize_nd a s' fill) xs) @ replicate (n - length xs) (full s' fill)))"

text \<open>
  \<^verbatim>\<open>dataset.resize(new_shape)\<close>: the new shape must have the rank of the dataset and
  stay within its maximal shape.
\<close>

definition within_maxshape :: "nat list \<Rightarrow> nat option list \<Rightarrow> bool" where
  "within_maxshape shape maxshape =
     list_all2 (\<lambda>n m. case m of None \<Rightarrow> True | Some b \<Rightarrow> n \<le> b) shape maxshape"

definition h5_resize :: "dataset \<Rightarrow> nat list \<Rightarrow> error + dataset" where
  "h5_resize d new_shape =
     (if length new_shape \<noteq> length (ds_shape d)
      then Inl (TypeError ''New shape length must match dataset rank'')
      else if \<not> within_maxshape new_shape (ds_maxshape d)
      then Inl (ValueError ''Unable to set extend dataset (dimension cannot exceed the maximal size)'')
      else Inr (d\<lparr>ds_shape := new_shape, ds_data := resize_nd (ds_data d) new_shape None\<rparr>))"

text \<open>The items with place \<open>i\<close> of the leading axis replaced.\<close>

fun set_row :: "nat \<Rightarrow> 'e nd \<Rightarrow> 'e nd \<Rightarrow> 'e nd" where
  "set_row i v (Elem x) = Elem x"
| "set_row i v (Arr xs) = Arr (xs[i := v])"

text \<open>
  \<^verbatim>\<open>dataset[i] = data\<close> for a scalar: the scalar fills place \<open>i\<close> of the leading
  axis, whatever the shape of the places.
\<close>

definition h5_setitem_scalar :: "dataset \<Rightarrow> nat \<Rightarrow> scalar \<Rightarrow> error + dataset" where
  "h5_setitem_scalar d i x =
     (case ds_shape d of
        [] \<Rightarrow> Inl (ValueError ''Illegal slicing argument for scalar dataspace'')
      | n # s \<Rightarrow>
          if n \<le> i then Inl (ValueError ''Index out of range'')
          else Inr (d\<lparr>ds_data := set_row i (full s (Some x)) (ds_data d)\<rparr>))"

text \<open>
  \<^verbatim>\<open>dataset[i,:] = v\<close>: two indices need a dataset of rank two at least; h5py
  converts the value to an array, whose shape must be the shape of a place. (h5py
  also stretches a value along axes of length one; that is not modelled and raises
  here.)
\<close>

definition h5_setitem_row :: "dataset \<Rightarrow> nat \<Rightarrow> pyval \<Rightarrow> error + dataset" where
  "h5_setitem_row d i v =
     (case ds_shape d of
        [] \<Rightarrow> Inl (TypeError ''Argument sequence too long'')
      | n # s \<Rightarrow>
          if s = [] then Inl (TypeError ''Argument sequence too long'')
          else if n \<le> i then Inl (ValueError ''Index out of range'')
          else (case asarray_typed v of
                  None \<Rightarrow> Inl (TypeError ''No conversion path for dtype'')
                | Some (dt, a) \<Rightarrow>
                    if shape_of a \<noteq> s then Inl (TypeError ''Cannot broadcast'')
                    else Inr (d\<lparr>ds_data := set_row i (map_nd Some a) (ds_data d)\<rparr>)))"

text \<open>\<^verbatim>\<open>data[:]\<close> on a leaf that is not a scalar.\<close>

fun slice_all :: "pyval \<Rightarrow> error + pyval" where
  "slice_all (PyList vs) = Inr (PyList vs)"
| "slice_all (NdArray dt (Arr xs)) = Inr (NdArray dt (Arr xs))"
| "slice_all (NdArray dt (Elem x)) = Inl (IndexError ''too many indices for array'')"
| "slice_all v = Inl (TypeError ''object is not subscriptable'')"

text \<open>\<^verbatim>\<open>data.shape\<close> on a leaf that is not a scalar: only an array has the attribute.\<close>

fun shape_attr :: "pyval \<Rightarrow> error + nat list" where
  "shape_attr (NdArray dt a) = Inr (shape_of a)"
| "shape_attr v = Inl (AttributeError ''object has no attribute shape'')"

subsection \<open>CXIWriter\<close>

text \<open>
  The fields of the class. \<open>w_f\<close> is the root group of the file \<^verbatim>\<open>self._f\<close>, \<open>w_i\<close>
  the stack position \<^verbatim>\<open>self._i\<close>. The constructor opens the file for writing, which
  empties it, and warns when the file was there already: \<open>file_exists\<close> is the answer
  of \<^verbatim>\<open>os.path.exists(filename)\<close>.
\<close>

record cxiwriter =
  w_filename :: string
  w_f :: h5obj
  w_i :: nat
  w_chunksize :: nat
  w_create_dataset_kwargs :: "(string \<times> string) list"

definition cxiwriter_init :: "bool \<Rightarrow> string \<Rightarrow> nat \<Rightarrow> bool \<Rightarrow> cxiwriter \<times> warning list" where
  "cxiwriter_init file_exists filename chunksize gzip_compression =
     (\<lparr>w_filename = filename, w_f = Group [], w_i = 0, w_chunksize = chunksize,
       w_create_dataset_kwargs =
         (if gzip_compression then [(''compression'', ''gzip'')] else [])\<rparr>,
      if file_exists then [FileExistsOverwritten filename] else [])"

text \<open>
  Lines 75 to 99: what the dataset of a new leaf is created with, and the value that
  \<^verbatim>\<open>data\<close> holds from there on. \<open>None\<close> is the \<^verbatim>\<open>continue\<close> of line 91.
\<close>

record stack_spec =
  sp_data :: pyval
  sp_shape :: "nat list"
  sp_maxshape :: "nat option list"
  sp_dtype :: dtype
  sp_axes :: string

definition axes_of_ndim :: "nat \<Rightarrow> string" where
  "axes_of_ndim n =
     (if n = 1 then ''experiment_identifier'' @ '':x''
      else if n = 2 then ''experiment_identifier'' @ '':y:x''
      else if n = 3 then ''experiment_identifier'' @ '':z:y:x''
      else ''experiment_identifier'')"

definition new_stack :: "nat \<Rightarrow> pyval \<Rightarrow> stack_spec option" where
  "new_stack chunksize data =
     (case data of
        PyScalar x \<Rightarrow>
          Some \<lparr>sp_data = data, sp_shape = [chunksize], sp_maxshape = [None],
                sp_dtype = (if dtype_of_type x = BytesS then VlenStr else dtype_of_type x),
                sp_axes = ''experiment_identifier:value''\<rparr>
      | _ \<Rightarrow>
          (case asarray data of (dt, a) \<Rightarrow>
             (case py_create dt of
                Inl e \<Rightarrow> None
              | Inr u \<Rightarrow>
                  Some \<lparr>sp_data = NdArray dt a, sp_shape = chunksize # shape_of a,
                        sp_maxshape = None # map Some (shape_of a), sp_dtype = dt,
                        sp_axes = axes_of_ndim (ndim a)\<rparr>)))"

datatype 'a flow = Go 'a | Skip warning | Raise error

text \<open>Lines 75 to 102, for a leaf whose name is not in the group yet.\<close>

definition create_stack :: "cxiwriter \<Rightarrow> path \<Rightarrow> pyval \<Rightarrow> cxiwriter \<times> pyval flow" where
  "create_stack self name data =
     (case new_stack (w_chunksize self) data of
        None \<Rightarrow> (self, Skip (CouldNotSaveDataset name))
      | Some sp \<Rightarrow>
          (case create_dataset (w_f self) name (sp_shape sp) (sp_maxshape sp) (sp_dtype sp)
                  (w_create_dataset_kwargs self) of
             Inl e \<Rightarrow> (self, Raise e)
           | Inr f1 \<Rightarrow>
               (case attrs_modify f1 name ''axes'' [sp_axes sp] of
                  Inl e \<Rightarrow> (self\<lparr>w_f := f1\<rparr>, Raise e)
                | Inr f2 \<Rightarrow> (self\<lparr>w_f := f2\<rparr>, Go (sp_data sp)))))"

text \<open>
  Lines 103 to 110. The quotient \<^verbatim>\<open>self._i/self._chunksize\<close> is the integer
  division of Python 2, for which the module is written (it imports from
  \<^verbatim>\<open>__future__\<close> the print function but not the division).
\<close>

definition grow_stack :: "cxiwriter \<Rightarrow> path \<Rightarrow> pyval \<Rightarrow> cxiwriter \<times> error option" where
  "grow_stack self name data =
     (case h5_dataset (w_f self) name of
        Inl e \<Rightarrow> (self, Some e)
      | Inr d \<Rightarrow>
          (case ds_shape d of
             [] \<Rightarrow> (self, Some (IndexError ''tuple index out of range''))
           | n # s \<Rightarrow>
               if n \<le> w_i self
               then (case (if isscalar data then Inr [] else shape_attr data) of
                       Inl e \<Rightarrow> (self, Some e)
                     | Inr data_shape \<Rightarrow>
                         if w_chunksize self = 0 then (self, Some ZeroDivisionError)
                         else (case h5_resize d
                                      ((w_chunksize self * (w_i self div w_chunksize self + 1))
                                         # data_shape) of
                                 Inl e \<Rightarrow> (self, Some e)
                               | Inr d' \<Rightarrow>
                                   (self\<lparr>w_f := h5_put (w_f self) name (Dataset d')\<rparr>, None)))
               else (self, None)))"

text \<open>Lines 112 to 115: the value goes to the stack position \<^verbatim>\<open>self._i\<close>.\<close>

definition store_in_stack :: "cxiwriter \<Rightarrow> path \<Rightarrow> pyval \<Rightarrow> cxiwriter \<times> error option" where
  "store_in_stack self name data =
     (case data of
        PyScalar x \<Rightarrow>
          (case h5_dataset (w_f self) name of
             Inl e \<Rightarrow> (self, Some e)
           | Inr d \<Rightarrow>
               (case h5_setitem_scalar d (w_i self) x of
                  Inl e \<Rightarrow> (self, Some e)
                | Inr d' \<Rightarrow> (self\<lparr>w_f := h5_put (w_f self) name (Dataset d')\<rparr>, None)))
      | _ \<Rightarrow>
          (case slice_all data of
             Inl e \<Rightarrow> (self, Some e)
           | Inr v \<Rightarrow>
               (case h5_dataset (w_f self) name of
                  Inl e \<Rightarrow> (self, Some e)
                | Inr d \<Rightarrow>
                    (case h5_setitem_row d (w_i self) v of
                       Inl e \<Rightarrow> (self, Some e)
                     | Inr d' \<Rightarrow> (self\<lparr>w_f := h5_put (w_f self) name (Dataset d')\<rparr>, None)))))"

text \<open>
  Lines 71 to 115, the body of the loop for a key whose value is not a dict. The
  result is the writer, the warnings issued and the exception raised, if any.
\<close>

definition write_dataset ::
  "cxiwriter \<Rightarrow> path \<Rightarrow> string \<Rightarrow> pyval \<Rightarrow> cxiwriter \<times> warning list \<times> error option" where
  "write_dataset self group_prefix k data0 =
     (let name = group_prefix @ [k]
      in case h5_contains (w_f self) group_prefix k of
           Inl e \<Rightarrow> (self, [], Some e)
         | Inr present \<Rightarrow>
             (case (if \<not> present then create_stack self name data0 else (self, Go data0)) of
                (self1, Skip w) \<Rightarrow> (self1, [w], None)
              | (self1, Raise e) \<Rightarrow> (self1, [], Some e)
              | (self1, Go data) \<Rightarrow>
                  (case grow_stack self1 name data of
                     (self2, Some e) \<Rightarrow> (self2, [], Some e)
                   | (self2, None) \<Rightarrow>
                       (case store_in_stack self2 name data of
                          (self3, r) \<Rightarrow> (self3, [], r)))))"

text \<open>Lines 64 to 68: the group of a key whose value is a dict is created when it is
  not there.\<close>

definition ensure_group :: "cxiwriter \<Rightarrow> path \<Rightarrow> string \<Rightarrow> cxiwriter \<times> error option" where
  "ensure_group self group_prefix k =
     (case h5_contains (w_f self) group_prefix k of
        Inl e \<Rightarrow> (self, Some e)
      | Inr present \<Rightarrow>
          if \<not> present
          then (case create_group (w_f self) (group_prefix @ [k]) of
                  Inl e \<Rightarrow> (self, Some e)
                | Inr f1 \<Rightarrow> (self\<lparr>w_f := f1\<rparr>, None))
          else (self, None))"

text \<open>\<^verbatim>\<open>_write_without_iterate(D, group_prefix)\<close>: the loop over the keys of \<open>D\<close>.\<close>

fun write_without_iterate ::
  "cxiwriter \<Rightarrow> (string \<times> pyval) list \<Rightarrow> path \<Rightarrow> cxiwriter \<times> warning list \<times> error option" where
  "write_without_iterate self [] group_prefix = (self, [], None)"
| "write_without_iterate self ((k, PyDict d) # rest) group_prefix =
     (case ensure_group self group_prefix k of
        (self1, Some e) \<Rightarrow> (self1, [], Some e)
      | (self1, None) \<Rightarrow>
          (case write_without_iterate self1 d (group_prefix @ [k]) of
             (self2, ws, Some e) \<Rightarrow> (self2, ws, Some e)
           | (self2, ws, None) \<Rightarrow>
               (case write_without_iterate self2 rest group_prefix of
                  (self3, ws', r) \<Rightarrow> (self3, ws @ ws', r))))"
| "write_without_iterate self ((k, data) # rest) group_prefix =
     (case write_dataset self group_prefix k data of
        (self1, ws, Some e) \<Rightarrow> (self1, ws, Some e)
      | (self1, ws, None) \<Rightarrow>
          (case write_without_iterate self1 rest group_prefix of
             (self2, ws', r) \<Rightarrow> (self2, ws @ ws', r)))"

text \<open>
  \<^verbatim>\<open>write(D)\<close> (the name \<open>write\<close> is taken in Isabelle): the stack position moves on after the record is written and the
  file flushed, so not when writing raised. Flushing does not change the content.
\<close>

definition write_record ::
  "cxiwriter \<Rightarrow> (string \<times> pyval) list \<Rightarrow> cxiwriter \<times> warning list \<times> error option" where
  "write_record self D =
     (case write_without_iterate self D [] of
        (self1, ws, Some e) \<Rightarrow> (self1, ws, Some e)
      | (self1, ws, None) \<Rightarrow> (self1\<lparr>w_i := w_i self1 + 1\<rparr>, ws, None))"

text \<open>
  \<^verbatim>\<open>_shrink_stacks\<close>: every dataset below the group is resized to the stack length
  \<^verbatim>\<open>self._i\<close> along its leading axis; \<^verbatim>\<open>s.pop(0)\<close> raises IndexError on an empty
  shape. The recursion follows the members of the group.
\<close>

fun shrink_stacks :: "nat \<Rightarrow> (string \<times> h5obj) list \<Rightarrow> error + (string \<times> h5obj) list" where
  "shrink_stacks i [] = Inr []"
| "shrink_stacks i ((k, Dataset d) # rest) =
     (case ds_shape d of
        [] \<Rightarrow> Inl (IndexError ''pop from empty list'')
      | n # s \<Rightarrow>
          (case h5_resize d (i # s) of
             Inl e \<Rightarrow> Inl e
           | Inr d' \<Rightarrow>
               (case shrink_stacks i rest of
                  Inl e \<Rightarrow> Inl e
                | Inr rest' \<Rightarrow> Inr ((k, Dataset d') # rest'))))"
| "shrink_stacks i ((k, Group ms) # rest) =
     (case shrink_stacks i ms of
        Inl e \<Rightarrow> Inl e
      | Inr ms' \<Rightarrow>
          (case shrink_stacks i rest of
             Inl e \<Rightarrow> Inl e
           | Inr rest' \<Rightarrow> Inr ((k, Group ms') # rest')))"

text \<open>\<^verbatim>\<open>close()\<close>: the result is the root group of the file as it is closed.\<close>

definition close :: "cxiwriter \<Rightarrow> error + h5obj" where
  "close self =
     (case w_f self of
        Dataset d \<Rightarrow> Inl (AttributeError ''Dataset object has no attribute keys'')
      | Group ms \<Rightarrow>
          (case shrink_stacks (w_i self) ms of
             Inl e \<Rightarrow> Inl e
           | Inr ms' \<Rightarrow> Inr (Group ms')))"

subsection \<open>Inputs of the examples\<close>

text \<open>
  A map file as the specification describes it: a header of 1024 bytes whose words 0
  to 2 are the extents 2, 3 and 4, whose word 3 is the mode 2 and whose word 23 is 0,
  and the floats 1.0 to 24.0 as 32-bit little-endian values.
\<close>

definition map_header_234 :: "byte list" where
  "map_header_234 =
     [2, 0, 0, 0,  3, 0, 0, 0,  4, 0, 0, 0,  2, 0, 0, 0] @ replicate 1008 0"

definition map_payload_24 :: "byte list" where
  "map_payload_24 =
     [0x00, 0x00, 0x80, 0x3F, 0x00, 0x00, 0x00, 0x40, 0x00, 0x00, 0x40, 0x40, 0x00, 0x00, 0x80, 0x40,
      0x00, 0x00, 0xA0, 0x40, 0x00, 0x00, 0xC0, 0x40, 0x00, 0x00, 0xE0, 0x40, 0x00, 0x00, 0x00, 0x41,
      0x00, 0x00, 0x10, 0x41, 0x00, 0x00, 0x20, 0x41, 0x00, 0x00, 0x30, 0x41, 0x00, 0x00, 0x40, 0x41,
      0x00, 0x00, 0x50, 0x41, 0x00, 0x00, 0x60, 0x41, 0x00, 0x00, 0x70, 0x41, 0x00, 0x00, 0x80, 0x41,
      0x00, 0x00, 0x88, 0x41, 0x00, 0x00, 0x90, 0x41, 0x00, 0x00, 0x98, 0x41, 0x00, 0x00, 0xA0, 0x41,
      0x00, 0x00, 0xA8, 0x41, 0x00, 0x00, 0xB0, 0x41, 0x00, 0x00, 0xB8, 0x41, 0x00, 0x00, 0xC0, 0x41]"

definition map_file_234 :: "byte list" where
  "map_file_234 = map_header_234 @ map_payload_24"

text \<open>A map file of mode 1 with one item: extents 1, 1 and 1, four bytes of payload.\<close>

definition map_file_mode1 :: "byte list" where
  "map_file_mode1 =
     [1, 0, 0, 0,  1, 0, 0, 0,  1, 0, 0, 0,  1, 0, 0, 0] @ replicate 1008 0 @ [7, 0, 0, 0]"

text \<open>The file above cut after 94 bytes of payload and after 92 (23 items), and
  three files that end within the header.\<close>

definition map_file_truncated :: "byte list" where
  "map_file_truncated = map_header_234 @ take 94 map_payload_24"

definition map_file_23_items :: "byte list" where
  "map_file_23_items = map_header_234 @ take 92 map_payload_24"

definition map_file_3_bytes :: "byte list" where
  "map_file_3_bytes = [2, 0, 0]"

definition map_file_8_bytes :: "byte list" where
  "map_file_8_bytes = [2, 0, 0, 0,  3, 0, 0, 0]"

definition map_file_16_bytes :: "byte list" where
  "map_file_16_bytes = [2, 0, 0, 0,  3, 0, 0, 0,  4, 0, 0, 0,  2, 0, 0, 0]"

text \<open>The bytes that \<^verbatim>\<open>read_map\<close> takes for the payload, given the words of the
  header: what follows the 1024 bytes of the header and the symmetry block.\<close>

definition payload_bytes :: "int list \<Rightarrow> byte list \<Rightarrow> byte list" where
  "payload_bytes hw file =
     (if 0 < hw ! 23 then drop (nat (hw ! 23)) (drop 1024 file) else drop 1024 file)"

text \<open>The globals of a module in which the two names have been bound.\<close>

definition bound_globals :: "unit map_globals" where
  "bound_globals = \<lparr>g_dtype_mode = Some 2, g_dx = Some ()\<rparr>"

text \<open>The floats 1.0, 2.0, 3.0 and 4.0 as IEEE doubles, and the two records of the
  round trip of the specification.\<close>

definition float_1 :: "64 word" where "float_1 = 0x3FF0000000000000"
definition float_2 :: "64 word" where "float_2 = 0x4000000000000000"
definition float_3 :: "64 word" where "float_3 = 0x4008000000000000"
definition float_4 :: "64 word" where "float_4 = 0x4010000000000000"

definition record_1 :: "(string \<times> pyval) list" where
  "record_1 =
     [(''a'', PyScalar (PyInt 1)),
      (''b'', PyList [PyScalar (PyFloat float_1), PyScalar (PyFloat float_2)])]"

definition record_2 :: "(string \<times> pyval) list" where
  "record_2 =
     [(''a'', PyScalar (PyInt 2)),
      (''b'', PyList [PyScalar (PyFloat float_3), PyScalar (PyFloat float_4)])]"

text \<open>A writer on a new file with the chunk size \<open>c\<close>, and the writer after the
  records of a list have been written, as long as no write raises.\<close>

definition new_writer :: "nat \<Rightarrow> cxiwriter" where
  "new_writer c = fst (cxiwriter_init False ''out.cxi'' c False)"

fun write_all :: "cxiwriter \<Rightarrow> (string \<times> pyval) list list \<Rightarrow> cxiwriter \<times> warning list \<times> error option" where
  "write_all self [] = (self, [], None)"
| "write_all self (D # Ds) =
     (case write_record self D of
        (self1, ws, Some e) \<Rightarrow> (self1, ws, Some e)
      | (self1, ws, None) \<Rightarrow>
          (case write_all self1 Ds of (self2, ws', r) \<Rightarrow> (self2, ws @ ws', r)))"

text \<open>A record with one leaf, a list of one float.\<close>

definition record_list :: "(string \<times> pyval) list" where
  "record_list = [(''b'', PyList [PyScalar (PyFloat float_1)])]"

text \<open>The writer after this record has been written once with chunk size 1.\<close>

definition writer_after_one :: cxiwriter where
  "writer_after_one = fst (write_record (new_writer 1) record_list)"

text \<open>The record \<open>{g: {x: 5}}\<close>, and the writer after it has been written once
  with chunk size 2.\<close>

definition record_nested :: "(string \<times> pyval) list" where
  "record_nested = [(''g'', PyDict [(''x'', PyScalar (PyInt 5))])]"

definition writer_after_nested :: cxiwriter where
  "writer_after_nested = fst (write_record (new_writer 2) record_nested)"

text \<open>An array of floats of shape (1, 2).\<close>

definition array_1_2 :: pyval where
  "array_1_2 = NdArray Float64 (Arr [Arr [Elem (PyFloat float_1), Elem (PyFloat float_2)]])"

text \<open>The attributes of the dataset at a path of a container.\<close>

definition attrs_at :: "h5obj \<Rightarrow> path \<Rightarrow> (string \<times> string list) list option" where
  "attrs_at f name =
     (case h5_get f name of Some (Dataset d) \<Rightarrow> Some (ds_attrs d) | _ \<Rightarrow> None)"

text \<open>The leading-axis length of the dataset at a path of a container.\<close>

definition stack_length :: "h5obj \<Rightarrow> path \<Rightarrow> nat option" where
  "stack_length f name =
     (case h5_get f name of
        Some (Dataset d) \<Rightarrow> (case ds_shape d of [] \<Rightarrow> None | n # s \<Rightarrow> Some n)
      | _ \<Rightarrow> None)"

text \<open>The capacity that the specification gives a stack after \<open>j\<close> writes, for
  \<open>j\<close> of 1 or more: the smallest multiple of the chunk size \<open>C\<close> that is
  strictly greater than \<open>j - 1\<close>.\<close>

definition spec_capacity :: "nat \<Rightarrow> nat \<Rightarrow> nat" where
  "spec_capacity C j = C * ((j - 1) div C + 1)"

text \<open>The records \<open>{k: x}\<close> for the scalars \<open>x\<close> of a list.\<close>

definition scalar_records :: "string \<Rightarrow> scalar list \<Rightarrow> (string \<times> pyval) list list" where
  "scalar_records k xs = map (\<lambda>x. [(k, PyScalar x)]) xs"

text \<open>A writer with chunk size \<open>C\<close> at the stack position \<open>j\<close>, whose file
  holds the one dataset \<open>k\<close>, of one axis without bound and of length \<open>n\<close>.\<close>

definition one_stack :: "cxiwriter \<Rightarrow> string \<Rightarrow> nat \<Rightarrow> nat \<Rightarrow> nat \<Rightarrow> bool" where
  "one_stack self k C n j =
     (w_i self = j \<and> w_chunksize self = C \<and>
      (\<exists>d. w_f self = Group [(k, Dataset d)] \<and> ds_shape d = [n] \<and> ds_maxshape d = [None]))"

section \<open>The claims\<close>

subsection \<open>The map reader as the module stands\<close>

text \<open>
  C3. The specification says: for a map file with a 1024-byte header that encodes the
  extents (2, 3, 4), mode 2 and NSYMBT 0, followed by 24 little-endian floats,
  \<^verbatim>\<open>read\<close> returns an array of shape (2, 3, 4) with the payload in order. The code
  does not return: after the header is decoded, line 160 reads the name
  \<^verbatim>\<open>dtype_mode\<close>, which nothing binds, and NameError is raised before the payload
  is read.
\<close>

theorem read_map_header_decode_raises:
  "read_map module_globals map_file_234 = ([], Inl (NameError ''dtype_mode''))"
  by code_simp

text \<open>
  With the two names bound the rest of the body does what the specification says of
  this file: shape (2, 3, 4), 32-bit floats, the 24 items in file order.
\<close>

lemma read_map_header_decode_bound:
  "read_map bound_globals map_file_234 =
     ([], Inr (\<lparr>nd_dtype = Float32, nd_shape = [2, 3, 4],
                 nd_items = chunks 4 map_payload_24\<rparr>, ()))"
  by code_simp

text \<open>
  C8. The specification says: a map file whose mode is one of 0 to 5 is not rejected
  for its mode; a mode other than 0, 2 and 5 gives a warning and the payload is
  decoded. On a file of mode 1 the code issues no warning and decodes nothing: the
  test that would warn reads the unbound name \<^verbatim>\<open>dtype_mode\<close> and raises
  NameError, the same defect as in C3.
\<close>

theorem read_map_mode1_raises:
  "read_map module_globals map_file_mode1 = ([], Inl (NameError ''dtype_mode''))"
  by code_simp

subsection \<open>The round trip of two records\<close>

text \<open>
  C2. Writing the records \<open>{a: 1, b: [1.0, 2.0]}\<close> and \<open>{a: 2, b: [3.0, 4.0]}\<close>
  with chunk size 2 and closing gives a container in which leaf \<open>a\<close> holds
  \<open>[1, 2]\<close> and leaf \<open>b\<close> holds \<open>[[1.0, 2.0], [3.0, 4.0]]\<close>, both of leading-axis
  length 2; no write raises and none warns.
\<close>

theorem round_trip_two_records:
  "snd (write_all (new_writer 2) [record_1, record_2]) = ([], None) \<and>
   close (fst (write_all (new_writer 2) [record_1, record_2])) =
     Inr (Group
       [(''a'', Dataset
           \<lparr>ds_shape = [2], ds_maxshape = [None], ds_dtype = Int64, ds_kwargs = [],
            ds_attrs = [(''axes'', [''experiment_identifier:value''])],
            ds_data = Arr [Elem (Some (PyInt 1)), Elem (Some (PyInt 2))]\<rparr>),
        (''b'', Dataset
           \<lparr>ds_shape = [2, 2], ds_maxshape = [None, Some 2], ds_dtype = Float64,
            ds_kwargs = [], ds_attrs = [(''axes'', [''experiment_identifier:x''])],
            ds_data =
              Arr [Arr [Elem (Some (PyFloat float_1)), Elem (Some (PyFloat float_2))],
                   Arr [Elem (Some (PyFloat float_3)), Elem (Some (PyFloat float_4))]]\<rparr>)])"
  by code_simp

subsection \<open>Growth of the stacks\<close>

text \<open>
  C1. The specification says: for every chunk size C > 0 and every N >= 1 records,
  each leaf present since record 0 has capacity the smallest multiple of C above N - 1
  before \<^verbatim>\<open>close()\<close>, and length N after it. With C = 1 and the record
  \<open>{b: [1.0]}\<close> written twice, the second write raises AttributeError: the stack is
  full, and line 107 asks the Python list for its \<^verbatim>\<open>shape\<close>. (The list is turned
  into an array on line 86 only when the dataset is created.) The capacity stays 1
  where the claim says 2, the stack position stays 1, and closing leaves length 1
  where the claim says 2. For a leaf that is a scalar the claim holds, see
  \<open>capacity_growth_scalar_leaf\<close> below.
\<close>

theorem capacity_growth_list_leaf_raises:
  "snd (write_all (new_writer 1) [record_list, record_list]) =
     ([], Some (AttributeError ''object has no attribute shape'')) \<and>
   stack_length (w_f (fst (write_all (new_writer 1) [record_list, record_list]))) [''b'']
     = Some 1 \<and>
   w_i (fst (write_all (new_writer 1) [record_list, record_list])) = 1 \<and>
   close (fst (write_all (new_writer 1) [record_list, record_list])) =
     Inr (Group
       [(''b'', Dataset
           \<lparr>ds_shape = [1, 1], ds_maxshape = [None, Some 1], ds_dtype = Float64,
            ds_kwargs = [], ds_attrs = [(''axes'', [''experiment_identifier:x''])],
            ds_data = Arr [Arr [Elem (Some (PyFloat float_1))]]\<rparr>)])"
  by code_simp

subsection \<open>Growth of the stack of a scalar leaf\<close>

text \<open>
  Where the leaf is a scalar the stack grows as the specification says: the defect
  of C1 is in the path of a leaf that is a list.
\<close>

lemma capacity_above: "0 < C \<Longrightarrow> j < spec_capacity C (Suc j)"
proof -
  assume "0 < C"
  then have "j mod C < C" by simp
  moreover have "j = C * (j div C) + j mod C" by simp
  ultimately have "j < C * (j div C) + C" by linarith
  then show ?thesis by (simp add: spec_capacity_def)
qed

lemma capacity_keep:
  assumes "0 < C" and "0 < j" and "j < spec_capacity C j"
  shows "spec_capacity C (Suc j) = spec_capacity C j"
proof -
  define q where "q = (j - 1) div C"
  from assms(3) have up: "j < C * (q + 1)"
    by (simp add: spec_capacity_def q_def)
  have "C * q \<le> j - 1"
    unfolding q_def by simp
  with assms(2) have lo: "C * q \<le> j" by linarith
  from lo up assms(1) have "j div C = q"
    by (metis div_nat_eqI mult.commute Suc_eq_plus1)
  then show ?thesis
    by (simp add: spec_capacity_def q_def)
qed

lemma write_scalar_first:
  assumes "0 < C"
  shows "\<exists>s. write_record (new_writer C) [(k, PyScalar x)] = (s, [], None) \<and>
    one_stack s k C (spec_capacity C 1) 1"
proof -
  have dt: "(if dtype_of_type x = BytesS then VlenStr else dtype_of_type x) \<noteq> ObjectO"
    by (cases x) simp_all
  with assms show ?thesis
    by (simp add: write_record_def write_dataset_def new_writer_def cxiwriter_init_def
        h5_contains_def create_stack_def new_stack_def create_dataset_def
        parent_is_group_def attrs_modify_def h5_dataset_def grow_stack_def
        store_in_stack_def h5_setitem_scalar_def one_stack_def spec_capacity_def)
qed

lemma write_scalar_step:
  assumes C: "0 < C" and j: "0 < j" and st: "one_stack self k C (spec_capacity C j) j"
  shows "\<exists>s. write_record self [(k, PyScalar x)] = (s, [], None) \<and>
    one_stack s k C (spec_capacity C (Suc j)) (Suc j)"
proof -
  from st obtain d where f: "w_f self = Group [(k, Dataset d)]"
    and sh: "ds_shape d = [spec_capacity C j]" and mx: "ds_maxshape d = [None]"
    and i: "w_i self = j" and c: "w_chunksize self = C"
    by (auto simp: one_stack_def)
  show ?thesis
  proof (cases "spec_capacity C j \<le> j")
    case True
    have new: "C * (j div C + 1) = spec_capacity C (Suc j)"
      by (simp add: spec_capacity_def)
    from C have "j < spec_capacity C (Suc j)" by (rule capacity_above)
    with True f sh mx i c C new show ?thesis
      by (simp add: write_record_def write_dataset_def h5_contains_def grow_stack_def
          h5_dataset_def h5_resize_def within_maxshape_def store_in_stack_def
          h5_setitem_scalar_def one_stack_def)
  next
    case False
    then have lt: "j < spec_capacity C j" by simp
    with C j have "spec_capacity C (Suc j) = spec_capacity C j" by (rule capacity_keep)
    with False lt f sh mx i c show ?thesis
      by (simp add: write_record_def write_dataset_def h5_contains_def grow_stack_def
          h5_dataset_def store_in_stack_def h5_setitem_scalar_def one_stack_def)
  qed
qed

lemma write_all_scalars:
  assumes "0 < C"
  shows "0 < j \<Longrightarrow> one_stack self k C (spec_capacity C j) j \<Longrightarrow>
    \<exists>s. write_all self (scalar_records k xs) = (s, [], None) \<and>
      one_stack s k C (spec_capacity C (j + length xs)) (j + length xs)"
proof (induction xs arbitrary: self j)
  case Nil
  then show ?case by (simp add: scalar_records_def)
next
  case (Cons x xs)
  from write_scalar_step [OF assms Cons.prems] obtain s1 where
    w: "write_record self [(k, PyScalar x)] = (s1, [], None)"
    and s1: "one_stack s1 k C (spec_capacity C (Suc j)) (Suc j)"
    by blast
  from Cons.IH [OF _ s1] obtain s2 where
    "write_all s1 (scalar_records k xs) = (s2, [], None)"
    and "one_stack s2 k C (spec_capacity C (Suc j + length xs)) (Suc j + length xs)"
    by auto
  with w show ?case by (simp add: scalar_records_def)
qed

lemma close_one_stack:
  assumes "one_stack self k C n j"
  shows "\<exists>f. close self = Inr f \<and> stack_length f [k] = Some j"
  using assms
  by (auto simp: one_stack_def close_def h5_resize_def within_maxshape_def stack_length_def)

text \<open>
  For every chunk size above 0 and every list of one scalar or more, the records
  \<open>{k: x}\<close> are written without exception or warning; before \<^verbatim>\<open>close()\<close> the
  stack of \<open>k\<close> has the capacity of the specification, and after it the length is
  the number of records.
\<close>

lemma capacity_growth_scalar_leaf:
  assumes "0 < C" and "xs \<noteq> []"
  shows "\<exists>self f. write_all (new_writer C) (scalar_records k xs) = (self, [], None) \<and>
    stack_length (w_f self) [k] = Some (spec_capacity C (length xs)) \<and>
    close self = Inr f \<and> stack_length f [k] = Some (length xs)"
proof -
  from assms(2) obtain x xs' where xs: "xs = x # xs'" by (cases xs) auto
  from write_scalar_first [OF assms(1)] obtain s1 where
    w1: "write_record (new_writer C) [(k, PyScalar x)] = (s1, [], None)"
    and s1: "one_stack s1 k C (spec_capacity C 1) 1"
    by blast
  from write_all_scalars [OF assms(1) _ s1, of xs'] obtain s2 where
    w2: "write_all s1 (scalar_records k xs') = (s2, [], None)"
    and s2: "one_stack s2 k C (spec_capacity C (1 + length xs')) (1 + length xs')"
    by auto
  from w1 w2 xs have "write_all (new_writer C) (scalar_records k xs) = (s2, [], None)"
    by (simp add: scalar_records_def)
  moreover from s2 xs have "stack_length (w_f s2) [k] = Some (spec_capacity C (length xs))"
    by (auto simp: one_stack_def stack_length_def)
  moreover from close_one_stack [OF s2] xs obtain f where
    "close s2 = Inr f" "stack_length f [k] = Some (length xs)"
    by auto
  ultimately show ?thesis by blast
qed

subsection \<open>The stack position\<close>

lemma ensure_group_w_i: "ensure_group self p k = (self1, r) \<Longrightarrow> w_i self1 = w_i self"
  by (auto simp: ensure_group_def split: sum.splits if_splits)

lemma create_stack_w_i: "create_stack self name data = (self1, fl) \<Longrightarrow> w_i self1 = w_i self"
  by (auto simp: create_stack_def split: option.splits sum.splits)

lemma grow_stack_w_i: "grow_stack self name data = (self1, r) \<Longrightarrow> w_i self1 = w_i self"
  by (auto simp: grow_stack_def split: sum.splits list.splits if_splits)

lemma store_in_stack_w_i: "store_in_stack self name data = (self1, r) \<Longrightarrow> w_i self1 = w_i self"
  by (auto simp: store_in_stack_def split: pyval.splits sum.splits)

lemma write_dataset_w_i:
  assumes "write_dataset self p k data = (self1, ws, r)"
  shows "w_i self1 = w_i self"
proof (cases "h5_contains (w_f self) p k")
  case (Inl e)
  with assms show ?thesis by (simp add: write_dataset_def)
next
  case (Inr present)
  define st where "st = (if \<not> present then create_stack self (p @ [k]) data else (self, Go data))"
  obtain s1 fl where st: "st = (s1, fl)"
    by (cases st)
  then have i1: "w_i s1 = w_i self"
    unfolding st_def by (auto split: if_splits dest: create_stack_w_i)
  have eq: "write_dataset self p k data =
     (case fl of
        Skip w \<Rightarrow> (s1, [w], None)
      | Raise e \<Rightarrow> (s1, [], Some e)
      | Go d \<Rightarrow>
          (case grow_stack s1 (p @ [k]) d of
             (s2, Some e) \<Rightarrow> (s2, [], Some e)
           | (s2, None) \<Rightarrow>
               (case store_in_stack s2 (p @ [k]) d of (s3, r) \<Rightarrow> (s3, [], r))))"
    using st unfolding st_def write_dataset_def Let_def Inr by simp
  show ?thesis
  proof (cases fl)
    case (Go d)
    obtain s2 r2 where g: "grow_stack s1 (p @ [k]) d = (s2, r2)"
      by (cases "grow_stack s1 (p @ [k]) d")
    obtain s3 r3 where s: "store_in_stack s2 (p @ [k]) d = (s3, r3)"
      by (cases "store_in_stack s2 (p @ [k]) d")
    from g have i2: "w_i s2 = w_i s1" by (rule grow_stack_w_i)
    from s have i3: "w_i s3 = w_i s2" by (rule store_in_stack_w_i)
    show ?thesis
    proof (cases r2)
      case None
      with assms eq Go g s have "self1 = s3" by simp
      with i1 i2 i3 show ?thesis by simp
    next
      case (Some e)
      with assms eq Go g have "self1 = s2" by simp
      with i1 i2 show ?thesis by simp
    qed
  next
    case (Skip w)
    with assms eq have "self1 = s1" by simp
    with i1 show ?thesis by simp
  next
    case (Raise e)
    with assms eq have "self1 = s1" by simp
    with i1 show ?thesis by simp
  qed
qed

subsection \<open>The loop over the keys of a record\<close>

lemma wwi_leaf:
  "\<not> is_dict v \<Longrightarrow>
   write_without_iterate self ((k, v) # rest) p =
     (case write_dataset self p k v of
        (self1, ws, Some e) \<Rightarrow> (self1, ws, Some e)
      | (self1, ws, None) \<Rightarrow>
          (case write_without_iterate self1 rest p of
             (self2, ws', r) \<Rightarrow> (self2, ws @ ws', r)))"
  by (cases v) simp_all

text \<open>Induction along the loop: a dict is entered after its group is there, and the
  rest of the keys is reached when nothing has raised.\<close>

lemma wwi_induct [case_names Nil Dict Leaf]:
  assumes nil: "\<And>self p. P self [] p"
    and dict: "\<And>self k d rest p.
        (\<And>s1. ensure_group self p k = (s1, None) \<Longrightarrow> P s1 d (p @ [k])) \<Longrightarrow>
        (\<And>s1 s2 ws. ensure_group self p k = (s1, None) \<Longrightarrow>
            write_without_iterate s1 d (p @ [k]) = (s2, ws, None) \<Longrightarrow> P s2 rest p) \<Longrightarrow>
        P self ((k, PyDict d) # rest) p"
    and leaf: "\<And>self k v rest p. \<not> is_dict v \<Longrightarrow>
        (\<And>s1 ws. write_dataset self p k v = (s1, ws, None) \<Longrightarrow> P s1 rest p) \<Longrightarrow>
        P self ((k, v) # rest) p"
  shows "P self D p"
  apply (induction self D p rule: write_without_iterate.induct)
  subgoal for self group_prefix
    by (rule nil)
  subgoal premises IH for self k d rest group_prefix
  proof (rule dict)
    fix s1 assume e: "ensure_group self group_prefix k = (s1, None)"
    show "P s1 d (group_prefix @ [k])"
      by (rule IH(1) [OF e [symmetric] refl])
  next
    fix s1 s2 ws
    assume e: "ensure_group self group_prefix k = (s1, None)"
      and w: "write_without_iterate s1 d (group_prefix @ [k]) = (s2, ws, None)"
    show "P s2 rest group_prefix"
      by (rule IH(2) [OF e [symmetric] refl w [symmetric] refl refl])
  qed
  subgoal premises IH for self k v rest group_prefix
  proof (rule leaf)
    fix s1 ws assume wd: "write_dataset self group_prefix k (PyScalar v) = (s1, ws, None)"
    show "P s1 rest group_prefix"
      by (rule IH [OF wd [symmetric] refl refl])
  qed simp
  subgoal premises IH for self k rest group_prefix
  proof (rule leaf)
    fix s1 ws assume wd: "write_dataset self group_prefix k PyNone = (s1, ws, None)"
    show "P s1 rest group_prefix"
      by (rule IH [OF wd [symmetric] refl refl])
  qed simp
  subgoal premises IH for self k v rest group_prefix
  proof (rule leaf)
    fix s1 ws assume wd: "write_dataset self group_prefix k (PyList v) = (s1, ws, None)"
    show "P s1 rest group_prefix"
      by (rule IH [OF wd [symmetric] refl refl])
  qed simp
  subgoal premises IH for self k dt a rest group_prefix
  proof (rule leaf)
    fix s1 ws assume wd: "write_dataset self group_prefix k (NdArray dt a) = (s1, ws, None)"
    show "P s1 rest group_prefix"
      by (rule IH [OF wd [symmetric] refl refl])
  qed simp
  done

lemma write_without_iterate_w_i:
  "write_without_iterate self D p = (self1, ws, r) \<Longrightarrow> w_i self1 = w_i self"
proof (induction self D p arbitrary: self1 ws r rule: wwi_induct)
  case (Nil self p)
  then show ?case by simp
next
  case (Dict self k d rest p)
  obtain s1 r1 where e: "ensure_group self p k = (s1, r1)"
    by (cases "ensure_group self p k")
  then have i1: "w_i s1 = w_i self" by (rule ensure_group_w_i)
  show ?case
  proof (cases r1)
    case (Some err)
    with Dict.prems e i1 show ?thesis by simp
  next
    case None
    obtain s2 ws2 r2 where w2: "write_without_iterate s1 d (p @ [k]) = (s2, ws2, r2)"
      by (cases "write_without_iterate s1 d (p @ [k])")
    from e None have e': "ensure_group self p k = (s1, None)" by simp
    have i2: "w_i s2 = w_i s1" by (rule Dict.IH(1)[OF e' w2])
    show ?thesis
    proof (cases r2)
      case (Some err)
      with Dict.prems e' w2 i1 i2 show ?thesis by simp
    next
      case n2: None
      obtain s3 ws3 r3 where w3: "write_without_iterate s2 rest p = (s3, ws3, r3)"
        by (cases "write_without_iterate s2 rest p")
      from w2 n2 have w2': "write_without_iterate s1 d (p @ [k]) = (s2, ws2, None)" by simp
      have "w_i s3 = w_i s2" by (rule Dict.IH(2)[OF e' w2' w3])
      with Dict.prems e' w2' w3 i1 i2 show ?thesis by simp
    qed
  qed
next
  case (Leaf self k v rest p)
  obtain s1 ws1 r1 where wd: "write_dataset self p k v = (s1, ws1, r1)"
    by (cases "write_dataset self p k v") auto
  then have i1: "w_i s1 = w_i self" by (rule write_dataset_w_i)
  show ?case
  proof (cases r1)
    case (Some err)
    with Leaf.prems Leaf.hyps wd i1 show ?thesis by (simp add: wwi_leaf)
  next
    case None
    obtain s2 ws2 r2 where w2: "write_without_iterate s1 rest p = (s2, ws2, r2)"
      by (cases "write_without_iterate s1 rest p")
    from wd None have wd': "write_dataset self p k v = (s1, ws1, None)" by simp
    have "w_i s2 = w_i s1" by (rule Leaf.IH[OF wd' w2])
    with Leaf.prems Leaf.hyps wd' w2 i1 show ?thesis by (simp add: wwi_leaf)
  qed
qed

text \<open>
  C10. If \<^verbatim>\<open>write(record)\<close> raises while the leaves of the record are written, the
  stack position \<^verbatim>\<open>self._i\<close> of the writer is the one it had before the call: it
  is incremented only after all leaves are written and the file is flushed. The next
  write therefore goes to the same position of the leading axis.
\<close>

theorem write_raises_keeps_position:
  assumes "write_record self D = (self1, ws, Some e)"
  shows "w_i self1 = w_i self"
proof -
  obtain s ws' r where w: "write_without_iterate self D [] = (s, ws', r)"
    by (cases "write_without_iterate self D []")
  then have "w_i s = w_i self" by (rule write_without_iterate_w_i)
  with assms w show ?thesis
    by (cases r) (auto simp: write_record_def)
qed

text \<open>The second write of the list record with chunk size 1 raises, and the stack
  position stays where the first write left it.\<close>

theorem write_raises_keeps_position_witness:
  "snd (write_record writer_after_one record_list) =
     ([], Some (AttributeError ''object has no attribute shape'')) \<and>
   w_i (fst (write_record writer_after_one record_list)) = w_i writer_after_one"
proof -
  have r: "snd (write_record writer_after_one record_list) =
      ([], Some (AttributeError ''object has no attribute shape''))"
    by code_simp
  then have h: "write_record writer_after_one record_list =
      (fst (write_record writer_after_one record_list), [],
       Some (AttributeError ''object has no attribute shape''))"
    by (metis prod.collapse)
  from write_raises_keeps_position [OF h] r show ?thesis by simp
qed

subsection \<open>Paths in the container\<close>

lemma map_of_alist_update_same: "map_of (alist_update k v ms) k = Some v"
  by (induction ms) auto

lemma map_of_alist_update_other: "k' \<noteq> k \<Longrightarrow> map_of (alist_update k v ms) k' = map_of ms k'"
  by (induction ms) auto

lemma h5_get_snoc:
  "h5_get f (p @ [k]) = (case h5_get f p of Some (Group ms) \<Rightarrow> map_of ms k | _ \<Rightarrow> None)"
proof (induction f p rule: h5_get.induct)
  case (1 obj)
  then show ?case by (cases obj) (auto split: option.splits)
next
  case (2 d k' ks)
  then show ?case by simp
next
  case (3 ms k' ks)
  then show ?case by (auto split: option.splits)
qed

lemma h5_get_put_same:
  "h5_get f name = Some old \<Longrightarrow> h5_get (h5_put f name new) name = Some new"
proof (induction f name new arbitrary: old rule: h5_put.induct)
  case (1 obj new)
  then show ?case by simp
next
  case (2 d k ks new)
  then show ?case by simp
next
  case (3 ms k ks new)
  then show ?case
    by (auto simp: map_of_alist_update_same split: option.splits)
qed

lemma h5_get_put_new:
  "parent_is_group f name \<Longrightarrow> h5_get f name = None \<Longrightarrow>
   h5_get (h5_put f name new) name = Some new"
proof (induction f name new rule: h5_put.induct)
  case (1 obj new)
  then show ?case by simp
next
  case (2 d k ks new)
  then show ?case by (simp add: parent_is_group_def split: if_splits)
next
  case (3 ms k ks new)
  show ?case
  proof (cases "ks = []")
    case True
    with 3 show ?thesis by (auto split: option.splits)
  next
    case False
    with "3.prems" obtain child where c: "map_of ms k = Some child"
      by (auto simp: parent_is_group_def split: option.splits)
    with "3.prems" False have "parent_is_group child ks" "h5_get child ks = None"
      by (auto simp: parent_is_group_def)
    with "3.IH" c have "h5_get (h5_put child ks new) ks = Some new" by simp
    with c show ?thesis by (simp add: map_of_alist_update_same)
  qed
qed

lemma h5_contains_iff:
  "h5_contains f p k = Inr b \<Longrightarrow> b = (h5_get f (p @ [k]) \<noteq> None)"
  by (auto simp: h5_contains_def h5_get_snoc split: option.splits h5obj.splits)

lemma h5_contains_parent:
  "h5_contains f p k = Inr b \<Longrightarrow> parent_is_group f (p @ [k])"
  by (auto simp: h5_contains_def parent_is_group_def split: option.splits h5obj.splits)

lemma h5_contains_present:
  "parent_is_group f (p @ [k]) \<Longrightarrow> h5_get f (p @ [k]) \<noteq> None \<Longrightarrow> h5_contains f p k = Inr True"
  by (auto simp: h5_contains_def parent_is_group_def h5_get_snoc split: option.splits h5obj.splits)

lemma h5_get_parent:
  "h5_get f (p @ [k]) \<noteq> None \<Longrightarrow> parent_is_group f (p @ [k])"
  by (auto simp: parent_is_group_def h5_get_snoc split: option.splits h5obj.splits)

lemma h5_contains_True:
  "h5_get f (p @ [k]) \<noteq> None \<Longrightarrow> h5_contains f p k = Inr True"
  by (rule h5_contains_present [OF h5_get_parent])

subsection \<open>Groups are created once\<close>

lemma ensure_group_no_exists:
  assumes "ensure_group self p k = (s1, Some e)"
  shows "e \<noteq> ValueError ''Unable to create group (name already exists)''"
proof (cases "h5_contains (w_f self) p k")
  case (Inl e')
  with assms have "e = e'" by (simp add: ensure_group_def)
  with Inl show ?thesis
    by (auto simp: h5_contains_def split: option.splits h5obj.splits)
next
  case (Inr present)
  show ?thesis
  proof (cases present)
    case True
    with assms Inr show ?thesis by (simp add: ensure_group_def)
  next
    case False
    with Inr have "h5_get (w_f self) (p @ [k]) = None"
      by (auto dest: h5_contains_iff)
    with assms Inr False show ?thesis
      by (auto simp: ensure_group_def create_group_def split: if_splits)
  qed
qed

lemma create_stack_no_exists:
  "create_stack self name data = (s1, Raise e) \<Longrightarrow>
   e \<noteq> ValueError ''Unable to create group (name already exists)''"
  by (auto simp: create_stack_def create_dataset_def attrs_modify_def h5_dataset_def
      split: option.splits sum.splits if_splits h5obj.splits)

lemma grow_stack_no_exists:
  "grow_stack self name data = (s1, Some e) \<Longrightarrow>
   e \<noteq> ValueError ''Unable to create group (name already exists)''"
  by (cases data)
     (auto simp: grow_stack_def h5_dataset_def h5_resize_def
      split: option.splits sum.splits if_splits h5obj.splits list.splits)

lemma slice_all_no_exists:
  "slice_all data = Inl e \<Longrightarrow> e \<noteq> ValueError ''Unable to create group (name already exists)''"
  by (induction data rule: slice_all.induct) auto

lemma store_in_stack_no_exists:
  "store_in_stack self name data = (s1, Some e) \<Longrightarrow>
   e \<noteq> ValueError ''Unable to create group (name already exists)''"
  by (cases data)
     (auto simp: store_in_stack_def h5_dataset_def h5_setitem_scalar_def h5_setitem_row_def
      dest: slice_all_no_exists
      split: option.splits sum.splits if_splits h5obj.splits list.splits prod.splits)

text \<open>The ways through the body of the loop for a leaf.\<close>

lemma write_dataset_cases [consumes 1, case_names Lookup Skip Raise Grow Store]:
  assumes wd: "write_dataset self p k data = (s, ws, r)"
  obtains
    (Lookup) e where "h5_contains (w_f self) p k = Inl e" "s = self" "ws = []" "r = Some e"
  | (Skip) present w where "h5_contains (w_f self) p k = Inr present"
      "(if \<not> present then create_stack self (p @ [k]) data else (self, Go data)) = (s, Skip w)"
      "ws = [w]" "r = None"
  | (Raise) present e where "h5_contains (w_f self) p k = Inr present"
      "(if \<not> present then create_stack self (p @ [k]) data else (self, Go data)) = (s, Raise e)"
      "ws = []" "r = Some e"
  | (Grow) present s1 d e where "h5_contains (w_f self) p k = Inr present"
      "(if \<not> present then create_stack self (p @ [k]) data else (self, Go data)) = (s1, Go d)"
      "grow_stack s1 (p @ [k]) d = (s, Some e)" "ws = []" "r = Some e"
  | (Store) present s1 d s2 where "h5_contains (w_f self) p k = Inr present"
      "(if \<not> present then create_stack self (p @ [k]) data else (self, Go data)) = (s1, Go d)"
      "grow_stack s1 (p @ [k]) d = (s2, None)"
      "store_in_stack s2 (p @ [k]) d = (s, r)" "ws = []"
proof (cases "h5_contains (w_f self) p k")
  case (Inl e)
  with wd have "s = self" "ws = []" "r = Some e" by (simp_all add: write_dataset_def)
  with Inl show ?thesis by (rule Lookup)
next
  case (Inr present)
  define st where "st = (if \<not> present then create_stack self (p @ [k]) data else (self, Go data))"
  obtain s1 fl where st: "st = (s1, fl)"
    by (cases st)
  have eq: "write_dataset self p k data =
     (case fl of
        Skip w \<Rightarrow> (s1, [w], None)
      | Raise e \<Rightarrow> (s1, [], Some e)
      | Go d \<Rightarrow>
          (case grow_stack s1 (p @ [k]) d of
             (s2, Some e) \<Rightarrow> (s2, [], Some e)
           | (s2, None) \<Rightarrow>
               (case store_in_stack s2 (p @ [k]) d of (s3, r) \<Rightarrow> (s3, [], r))))"
    using st unfolding st_def write_dataset_def Let_def Inr by simp
  show ?thesis
  proof (cases fl)
    case (Go d)
    obtain s2 r2 where g: "grow_stack s1 (p @ [k]) d = (s2, r2)"
      by (cases "grow_stack s1 (p @ [k]) d")
    show ?thesis
    proof (cases r2)
      case None
      obtain s3 r3 where s: "store_in_stack s2 (p @ [k]) d = (s3, r3)"
        by (cases "store_in_stack s2 (p @ [k]) d")
      with wd eq Go g None have "s = s3" "ws = []" "r = r3" by simp_all
      with Inr st Go g None s show ?thesis
        unfolding st_def by (intro Store [of present s1 d s2]) simp_all
    next
      case (Some e)
      with wd eq Go g have "s = s2" "ws = []" "r = Some e" by simp_all
      with Inr st Go g Some show ?thesis
        unfolding st_def by (intro Grow [of present s1 d e]) simp_all
    qed
  next
    case (Skip w)
    with wd eq have "s = s1" "ws = [w]" "r = None" by simp_all
    with Inr st Skip show ?thesis
      unfolding st_def by (intro that(2) [of present w]) simp_all
  next
    case (Raise e)
    with wd eq have "s = s1" "ws = []" "r = Some e" by simp_all
    with Inr st Raise show ?thesis
      unfolding st_def by (intro that(3) [of present e]) simp_all
  qed
qed

lemma write_dataset_no_exists:
  assumes "write_dataset self p k data = (s, ws, Some e)"
  shows "e \<noteq> ValueError ''Unable to create group (name already exists)''"
  using assms
proof (cases rule: write_dataset_cases)
  case (Lookup e')
  then show ?thesis
    by (auto simp: h5_contains_def split: option.splits h5obj.splits)
next
  case (Skip present w)
  then show ?thesis by simp
next
  case (Raise present e')
  then show ?thesis
    by (auto split: if_splits dest: create_stack_no_exists)
next
  case (Grow present s1 d e')
  then show ?thesis
    by (auto dest: grow_stack_no_exists)
next
  case (Store present s1 d s2)
  then show ?thesis
    by (auto dest: store_in_stack_no_exists)
qed

lemma write_without_iterate_no_exists:
  "write_without_iterate self D p = (self1, ws, Some e) \<Longrightarrow>
   e \<noteq> ValueError ''Unable to create group (name already exists)''"
proof (induction self D p arbitrary: self1 ws e rule: wwi_induct)
  case (Nil self p)
  then show ?case by simp
next
  case (Dict self k d rest p)
  obtain s1 r1 where eg: "ensure_group self p k = (s1, r1)"
    by (cases "ensure_group self p k")
  show ?case
  proof (cases r1)
    case (Some err)
    with Dict.prems eg have "e = err" by simp
    with eg Some show ?thesis by (auto dest: ensure_group_no_exists)
  next
    case None
    obtain s2 ws2 r2 where w2: "write_without_iterate s1 d (p @ [k]) = (s2, ws2, r2)"
      by (cases "write_without_iterate s1 d (p @ [k])")
    from eg None have eg': "ensure_group self p k = (s1, None)" by simp
    show ?thesis
    proof (cases r2)
      case (Some err)
      with Dict.prems eg' w2 have "e = err" by simp
      with Dict.IH(1) [OF eg'] w2 Some show ?thesis by simp
    next
      case n2: None
      obtain s3 ws3 r3 where w3: "write_without_iterate s2 rest p = (s3, ws3, r3)"
        by (cases "write_without_iterate s2 rest p")
      from w2 n2 have w2': "write_without_iterate s1 d (p @ [k]) = (s2, ws2, None)" by simp
      from Dict.prems eg' w2' w3 have "r3 = Some e" by simp
      with Dict.IH(2) [OF eg' w2'] w3 show ?thesis by simp
    qed
  qed
next
  case (Leaf self k v rest p)
  obtain s1 ws1 r1 where wd: "write_dataset self p k v = (s1, ws1, r1)"
    by (cases "write_dataset self p k v") auto
  show ?case
  proof (cases r1)
    case (Some err)
    with Leaf.prems Leaf.hyps wd have "e = err" by (simp add: wwi_leaf)
    with wd Some show ?thesis by (auto dest: write_dataset_no_exists)
  next
    case None
    obtain s2 ws2 r2 where w2: "write_without_iterate s1 rest p = (s2, ws2, r2)"
      by (cases "write_without_iterate s1 rest p")
    from wd None have wd': "write_dataset self p k v = (s1, ws1, None)" by simp
    from Leaf.prems Leaf.hyps wd' w2 have "r2 = Some e" by (simp add: wwi_leaf)
    with Leaf.IH [OF wd'] w2 show ?thesis by simp
  qed
qed

lemma ensure_group_present:
  assumes "ensure_group self p k = (s1, None)"
  shows "h5_contains (w_f s1) p k = Inr True"
proof (cases "h5_contains (w_f self) p k")
  case (Inl e)
  with assms show ?thesis by (simp add: ensure_group_def)
next
  case (Inr present)
  show ?thesis
  proof (cases present)
    case True
    with assms Inr show ?thesis by (simp add: ensure_group_def)
  next
    case False
    with assms Inr obtain f1 where c: "create_group (w_f self) (p @ [k]) = Inr f1"
      and s1: "s1 = self\<lparr>w_f := f1\<rparr>"
      by (auto simp: ensure_group_def split: sum.splits)
    from c have "f1 = h5_put (w_f self) (p @ [k]) (Group [])"
      "parent_is_group (w_f self) (p @ [k])" "h5_get (w_f self) (p @ [k]) = None"
      by (auto simp: create_group_def split: if_splits)
    then have "h5_get f1 (p @ [k]) = Some (Group [])"
      by (simp add: h5_get_put_new)
    then have "h5_contains f1 p k = Inr True"
      by (intro h5_contains_True) simp
    with s1 show ?thesis by simp
  qed
qed

text \<open>
  C7. Writing never raises on the creation of a group: \<^verbatim>\<open>create_group\<close> is called
  only for a name that the group of the prefix does not hold, so the error that h5py
  raises for a name that exists is not among the exceptions of \<^verbatim>\<open>write\<close>, for any
  record and any state of the writer, and so for the same record written again.
  Once the group of a key is there, the step that ensures it finds it and leaves the
  writer as it is: a group is created at most once and reused from then on.
\<close>

theorem group_creation_idempotent:
  "snd (snd (write_record self D)) \<noteq>
     Some (ValueError ''Unable to create group (name already exists)'') \<and>
   (ensure_group self p k = (s1, None) \<longrightarrow> ensure_group s1 p k = (s1, None))"
proof
  obtain s ws r where w: "write_without_iterate self D [] = (s, ws, r)"
    by (cases "write_without_iterate self D []")
  show "snd (snd (write_record self D)) \<noteq>
     Some (ValueError ''Unable to create group (name already exists)'')"
  proof (cases r)
    case None
    with w show ?thesis by (simp add: write_record_def)
  next
    case (Some e)
    with w have "e \<noteq> ValueError ''Unable to create group (name already exists)''"
      by (auto dest: write_without_iterate_no_exists)
    with w Some show ?thesis by (simp add: write_record_def)
  qed
next
  show "ensure_group self p k = (s1, None) \<longrightarrow> ensure_group s1 p k = (s1, None)"
  proof
    assume "ensure_group self p k = (s1, None)"
    then have "h5_contains (w_f s1) p k = Inr True" by (rule ensure_group_present)
    then show "ensure_group s1 p k = (s1, None)" by (simp add: ensure_group_def)
  qed
qed

text \<open>The record \<open>{g: {x: 5}}\<close> of the specification, written a second time:
  the write does not raise, and the group \<open>g\<close> is found and left as it is.\<close>

theorem group_creation_idempotent_witness:
  "snd (snd (write_record writer_after_nested record_nested)) \<noteq>
     Some (ValueError ''Unable to create group (name already exists)'') \<and>
   ensure_group writer_after_nested [] ''g'' = (writer_after_nested, None)"
proof -
  have "h5_contains (w_f writer_after_nested) [] ''g'' = Inr True"
    by code_simp
  then have e: "ensure_group writer_after_nested [] ''g'' = (writer_after_nested, None)"
    by (simp add: ensure_group_def)
  from group_creation_idempotent
    [of writer_after_nested record_nested "[]" "''g''" writer_after_nested]
    e show ?thesis by simp
qed

subsection \<open>A leaf that has no element type\<close>

lemma new_stack_uncoercible:
  "\<not> isscalar v \<Longrightarrow> py_create (fst (asarray v)) = Inl e \<Longrightarrow> new_stack c v = None"
  by (cases v) (auto simp: new_stack_def split: prod.splits)

text \<open>
  C6. The sentence belongs to the step that creates the stack of a leaf whose key is
  not yet in its group (lines 74 to 91). For every record with such a leaf that is
  not a scalar and cannot be made into a typed array, the body of the loop leaves the
  writer as it is and issues the warning, without raising; the leaf is not in the
  container; and the loop goes on with the remaining keys as if the leaf were not in
  the record, with the warning in front of theirs.
\<close>

theorem skip_uncoercible_new_leaf:
  assumes "\<not> isscalar v" and "\<not> is_dict v"
    and "py_create (fst (asarray v)) = Inl e"
    and "h5_contains (w_f self) p k = Inr False"
  shows "write_dataset self p k v = (self, [CouldNotSaveDataset (p @ [k])], None) \<and>
    h5_get (w_f self) (p @ [k]) = None \<and>
    write_without_iterate self ((k, v) # rest) p =
      (case write_without_iterate self rest p of
         (s, ws, r) \<Rightarrow> (s, CouldNotSaveDataset (p @ [k]) # ws, r))"
proof -
  from assms(1,3) have "new_stack (w_chunksize self) v = None"
    by (rule new_stack_uncoercible)
  then have "create_stack self (p @ [k]) v = (self, Skip (CouldNotSaveDataset (p @ [k])))"
    by (simp add: create_stack_def)
  with assms(4) have wd: "write_dataset self p k v = (self, [CouldNotSaveDataset (p @ [k])], None)"
    by (simp add: write_dataset_def)
  from assms(4) have "h5_get (w_f self) (p @ [k]) = None"
    by (auto dest: h5_contains_iff)
  moreover from assms(2) wd have "write_without_iterate self ((k, v) # rest) p =
      (case write_without_iterate self rest p of
         (s, ws, r) \<Rightarrow> (s, CouldNotSaveDataset (p @ [k]) # ws, r))"
    by (simp add: wwi_leaf split: prod.splits)
  ultimately show ?thesis using wd by simp
qed

text \<open>On a new file the record \<open>{b: None, a: 1}\<close>: the leaf \<open>b\<close> is skipped with
  the warning and the leaf \<open>a\<close> is written.\<close>

theorem skip_uncoercible_new_leaf_witness:
  "\<not> isscalar PyNone \<and> \<not> is_dict PyNone \<and>
   py_create (fst (asarray PyNone)) = Inl (TypeError ''Object dtype has no native HDF5 equivalent'') \<and>
   h5_contains (w_f (new_writer 2)) [] ''b'' = Inr False \<and>
   write_dataset (new_writer 2) [] ''b'' PyNone =
     (new_writer 2, [CouldNotSaveDataset [''b'']], None) \<and>
   h5_get (w_f (new_writer 2)) [''b''] = None \<and>
   write_without_iterate (new_writer 2) [(''b'', PyNone), (''a'', PyScalar (PyInt 1))] [] =
     (case write_without_iterate (new_writer 2) [(''a'', PyScalar (PyInt 1))] [] of
        (s, ws, r) \<Rightarrow> (s, CouldNotSaveDataset [''b''] # ws, r))"
proof -
  have 1: "\<not> isscalar PyNone" and 2: "\<not> is_dict PyNone" by simp_all
  have 3: "py_create (fst (asarray PyNone)) =
      Inl (TypeError ''Object dtype has no native HDF5 equivalent'')"
    by (simp add: asarray_def py_create_def)
  have 4: "h5_contains (w_f (new_writer 2)) [] ''b'' = Inr False"
    by (simp add: new_writer_def cxiwriter_init_def h5_contains_def)
  from skip_uncoercible_new_leaf [OF 1 2 3 4, of "[(''a'', PyScalar (PyInt 1))]"] 1 2 3 4
  show ?thesis by simp
qed

subsection \<open>The axes attribute\<close>

lemma create_stack_Go:
  assumes "create_stack self name data = (s1, Go d)"
  shows "\<exists>sp ds. new_stack (w_chunksize self) data = Some sp \<and> d = sp_data sp \<and>
    h5_get (w_f s1) name = Some (Dataset ds) \<and> ds_attrs ds = [(''axes'', [sp_axes sp])]"
proof -
  from assms obtain sp where sp: "new_stack (w_chunksize self) data = Some sp"
    by (auto simp: create_stack_def split: option.splits)
  from assms sp obtain f1 where
    f1: "create_dataset (w_f self) name (sp_shape sp) (sp_maxshape sp) (sp_dtype sp)
           (w_create_dataset_kwargs self) = Inr f1"
    by (auto simp: create_stack_def split: sum.splits)
  define d0 where "d0 = \<lparr>ds_shape = sp_shape sp, ds_maxshape = sp_maxshape sp,
      ds_dtype = sp_dtype sp, ds_kwargs = w_create_dataset_kwargs self, ds_attrs = [],
      ds_data = full (sp_shape sp) None\<rparr>"
  from f1 have "f1 = h5_put (w_f self) name (Dataset d0)"
    and "parent_is_group (w_f self) name" and "h5_get (w_f self) name = None"
    by (auto simp: create_dataset_def d0_def split: if_splits)
  then have g1: "h5_get f1 name = Some (Dataset d0)"
    by (simp add: h5_get_put_new)
  then have ds: "h5_dataset f1 name = Inr d0"
    by (simp add: h5_dataset_def)
  from assms sp f1 ds have s1: "s1 = self\<lparr>w_f := h5_put f1 name
      (Dataset (d0\<lparr>ds_attrs := alist_update ''axes'' [sp_axes sp] (ds_attrs d0)\<rparr>))\<rparr>"
    and d: "d = sp_data sp"
    by (auto simp: create_stack_def attrs_modify_def)
  from g1 s1 have "h5_get (w_f s1) name =
      Some (Dataset (d0\<lparr>ds_attrs := alist_update ''axes'' [sp_axes sp] (ds_attrs d0)\<rparr>))"
    by (simp add: h5_get_put_same)
  with sp d show ?thesis by (simp add: d0_def)
qed

lemma create_stack_Raise:
  assumes "create_stack self name data = (s1, Raise e)"
  shows "s1 = self"
proof -
  from assms obtain sp where sp: "new_stack (w_chunksize self) data = Some sp"
    by (auto simp: create_stack_def split: option.splits)
  show ?thesis
  proof (cases "create_dataset (w_f self) name (sp_shape sp) (sp_maxshape sp) (sp_dtype sp)
           (w_create_dataset_kwargs self)")
    case (Inl e')
    with assms sp show ?thesis by (simp add: create_stack_def)
  next
    case (Inr f1)
    then have "\<exists>d0. f1 = h5_put (w_f self) name (Dataset d0)"
      and "parent_is_group (w_f self) name" and "h5_get (w_f self) name = None"
      by (auto simp: create_dataset_def split: if_splits)
    then obtain d0 where "h5_get f1 name = Some (Dataset d0)"
      by (auto simp: h5_get_put_new)
    then have "h5_dataset f1 name = Inr d0"
      by (simp add: h5_dataset_def)
    with assms sp Inr show ?thesis
      by (simp add: create_stack_def attrs_modify_def)
  qed
qed

lemma create_stack_Skip: "create_stack self name data = (s1, Skip w) \<Longrightarrow> s1 = self"
  by (auto simp: create_stack_def split: option.splits sum.splits)

lemma grow_stack_attrs:
  assumes "grow_stack s1 name d = (s2, r)"
  shows "attrs_at (w_f s2) name = attrs_at (w_f s1) name"
proof (cases "h5_get (w_f s1) name")
  case None
  with assms show ?thesis by (simp add: grow_stack_def h5_dataset_def)
next
  case (Some obj)
  show ?thesis
  proof (cases obj)
    case (Group ms)
    with assms Some show ?thesis by (simp add: grow_stack_def h5_dataset_def)
  next
    case (Dataset ds)
    with assms Some show ?thesis
      by (auto simp: grow_stack_def h5_dataset_def attrs_at_def h5_get_put_same h5_resize_def
          split: list.splits if_splits sum.splits)
  qed
qed

lemma store_in_stack_attrs:
  assumes "store_in_stack s2 name d = (s3, r)"
  shows "attrs_at (w_f s3) name = attrs_at (w_f s2) name"
proof (cases "h5_get (w_f s2) name")
  case None
  with assms show ?thesis
    by (cases d) (auto simp: store_in_stack_def h5_dataset_def split: sum.splits)
next
  case (Some obj)
  show ?thesis
  proof (cases obj)
    case (Group ms)
    with assms Some show ?thesis
      by (cases d) (auto simp: store_in_stack_def h5_dataset_def split: sum.splits)
  next
    case (Dataset ds)
    with assms Some show ?thesis
      by (cases d)
         (auto simp: store_in_stack_def h5_dataset_def attrs_at_def h5_get_put_same
            h5_setitem_scalar_def h5_setitem_row_def
          split: list.splits if_splits sum.splits option.splits prod.splits)
  qed
qed

lemma new_stack_axes:
  assumes "new_stack c data = Some sp"
  shows "(isscalar data \<longrightarrow> sp_axes sp = ''experiment_identifier:value'') \<and>
    (\<not> isscalar data \<and> ndim (snd (asarray data)) = 1 \<longrightarrow>
       sp_axes sp = ''experiment_identifier:x'') \<and>
    (\<not> isscalar data \<and> ndim (snd (asarray data)) = 2 \<longrightarrow>
       sp_axes sp = ''experiment_identifier:y:x'') \<and>
    (\<not> isscalar data \<and> ndim (snd (asarray data)) = 3 \<longrightarrow>
       sp_axes sp = ''experiment_identifier:z:y:x'')"
  using assms
  by (cases data)
     (auto simp: new_stack_def axes_of_ndim_def split: prod.splits sum.splits)

text \<open>
  C5. Every leaf dataset that \<^verbatim>\<open>write\<close> creates carries the attribute \<open>axes\<close>, a
  string in a list of one: for a key that is not in its group, whatever the body of
  the loop does after the creation, a dataset that is at the name afterwards has the
  attribute \<open>axes\<close> and no other, with the value
  \<open>experiment_identifier:value\<close> for a scalar,
  \<open>experiment_identifier:x\<close> for an array of one axis,
  \<open>experiment_identifier:y:x\<close> for two axes and
  \<open>experiment_identifier:z:y:x\<close> for three. (An array without axes or with
  more than three gets the value \<open>experiment_identifier\<close> alone, see
  \<open>axes_of_ndim\<close>; the specification says nothing of those.)
\<close>

theorem axes_attribute_of_created_leaf:
  assumes absent: "h5_contains (w_f self) p k = Inr False"
    and wd: "write_dataset self p k data = (s, ws, r)"
    and there: "h5_get (w_f s) (p @ [k]) \<noteq> None"
  shows "\<exists>axes. attrs_at (w_f s) (p @ [k]) = Some [(''axes'', [axes])] \<and>
    (isscalar data \<longrightarrow> axes = ''experiment_identifier:value'') \<and>
    (\<not> isscalar data \<and> ndim (snd (asarray data)) = 1 \<longrightarrow>
       axes = ''experiment_identifier:x'') \<and>
    (\<not> isscalar data \<and> ndim (snd (asarray data)) = 2 \<longrightarrow>
       axes = ''experiment_identifier:y:x'') \<and>
    (\<not> isscalar data \<and> ndim (snd (asarray data)) = 3 \<longrightarrow>
       axes = ''experiment_identifier:z:y:x'')"
proof -
  from absent have none: "h5_get (w_f self) (p @ [k]) = None"
    by (auto dest: h5_contains_iff)
  from wd show ?thesis
  proof (cases rule: write_dataset_cases)
    case (Lookup e)
    with absent show ?thesis by simp
  next
    case (Skip present w)
    with absent have "s = self" by (auto dest: create_stack_Skip)
    with none there show ?thesis by simp
  next
    case (Raise present e)
    with absent have "s = self" by (auto dest: create_stack_Raise)
    with none there show ?thesis by simp
  next
    case (Grow present s1 d e)
    with absent have cs: "create_stack self (p @ [k]) data = (s1, Go d)" by simp
    from create_stack_Go [OF cs] obtain sp where
      sp: "new_stack (w_chunksize self) data = Some sp"
      and a1: "attrs_at (w_f s1) (p @ [k]) = Some [(''axes'', [sp_axes sp])]"
      by (auto simp: attrs_at_def)
    from Grow(3) have "attrs_at (w_f s) (p @ [k]) = attrs_at (w_f s1) (p @ [k])"
      by (rule grow_stack_attrs)
    with a1 new_stack_axes [OF sp] show ?thesis by simp
  next
    case (Store present s1 d s2)
    with absent have cs: "create_stack self (p @ [k]) data = (s1, Go d)" by simp
    from create_stack_Go [OF cs] obtain sp where
      sp: "new_stack (w_chunksize self) data = Some sp"
      and a1: "attrs_at (w_f s1) (p @ [k]) = Some [(''axes'', [sp_axes sp])]"
      by (auto simp: attrs_at_def)
    from Store(3) have "attrs_at (w_f s2) (p @ [k]) = attrs_at (w_f s1) (p @ [k])"
      by (rule grow_stack_attrs)
    moreover from Store(4) have "attrs_at (w_f s) (p @ [k]) = attrs_at (w_f s2) (p @ [k])"
      by (rule store_in_stack_attrs)
    ultimately show ?thesis using a1 new_stack_axes [OF sp] by simp
  qed
qed

text \<open>On a new file with chunk size 2, the leaf \<open>m\<close> with an array of shape
  (1, 2): the dataset is created with the attribute for two axes.\<close>

theorem axes_attribute_of_created_leaf_witness:
  "h5_contains (w_f (new_writer 2)) [] ''m'' = Inr False \<and>
   h5_get (w_f (fst (write_dataset (new_writer 2) [] ''m'' array_1_2))) [''m''] \<noteq> None \<and>
   \<not> isscalar array_1_2 \<and> ndim (snd (asarray array_1_2)) = 2 \<and>
   attrs_at (w_f (fst (write_dataset (new_writer 2) [] ''m'' array_1_2))) [''m''] =
     Some [(''axes'', [''experiment_identifier:y:x''])]"
proof -
  have 1: "h5_contains (w_f (new_writer 2)) [] ''m'' = Inr False"
    by code_simp
  have 2: "write_dataset (new_writer 2) [] ''m'' array_1_2 =
      (fst (write_dataset (new_writer 2) [] ''m'' array_1_2),
       fst (snd (write_dataset (new_writer 2) [] ''m'' array_1_2)),
       snd (snd (write_dataset (new_writer 2) [] ''m'' array_1_2)))"
    by simp
  have 3: "h5_get (w_f (fst (write_dataset (new_writer 2) [] ''m'' array_1_2))) ([] @ [''m'']) \<noteq> None"
    by code_simp
  have 4: "\<not> isscalar array_1_2" and 5: "ndim (snd (asarray array_1_2)) = 2"
    by code_simp+
  from axes_attribute_of_created_leaf [OF 1 2 3] 1 3 4 5 show ?thesis
    by auto
qed

subsection \<open>The map reader: short and truncated files\<close>

lemma length_chunks:
  "0 < n \<Longrightarrow> length xs mod n = 0 \<Longrightarrow> length (chunks n xs) = length xs div n"
proof (induction n xs rule: chunks.induct)
  case (1 n xs)
  show ?case
  proof (cases "xs = []")
    case True
    then show ?thesis by (simp add: chunks.simps)
  next
    case False
    with "1.prems" have n: "n \<le> length xs"
      by (metis length_greater_0_conv mod_less not_le_imp_less less_not_refl)
    with "1.prems" have "length (drop n xs) mod n = 0"
      by (simp add: mod_eq_0_iff_dvd)
    with "1.IH" "1.prems" False have "length (chunks n (drop n xs)) = length (drop n xs) div n"
      by simp
    moreover from n "1.prems" have "length xs div n = Suc ((length xs - n) div n)"
      by (simp add: le_div_geq)
    ultimately show ?thesis
      using "1.prems" False by (subst chunks.simps) simp
  qed
qed

lemma itemsize_pos: "0 < itemsize dt"
  by (cases dt) simp_all

lemma frombuffer_Inr:
  "frombuffer buf dt = Inr a \<Longrightarrow>
   length buf mod itemsize dt = 0 \<and> length (nd_items a) = length buf div itemsize dt"
  by (auto simp: frombuffer_def length_chunks itemsize_pos split: if_splits)

lemma frombuffer_Inl:
  "frombuffer buf dt = Inl e \<Longrightarrow> e = ValueError ''buffer size must be a multiple of element size''"
  by (auto simp: frombuffer_def split: if_splits)

lemma frombuffer_int32_odd:
  "length buf mod 4 \<noteq> 0 \<Longrightarrow>
   frombuffer_int32 buf = Inl (ValueError ''buffer size must be a multiple of element size'')"
  by (simp add: frombuffer_int32_def frombuffer_def)

lemma frombuffer_int32_even:
  "length buf mod 4 = 0 \<Longrightarrow>
   \<exists>hw. frombuffer_int32 buf = Inr hw \<and> length hw = length buf div 4"
  by (simp add: frombuffer_int32_def frombuffer_def length_chunks)

lemma reshape_Inl: "reshape a s = Inl e \<Longrightarrow> \<exists>m. e = ValueError m"
  by (auto simp: reshape_def Let_def split: if_splits)

lemma reshape_dvd:
  assumes "reshape a [x, y, z] = Inr b" and "- 1 \<le> x" and "- 1 \<le> y" and "- 1 \<le> z"
  shows "(x * y * z) dvd int (length (nd_items a))"
proof -
  have neg: "\<And>d::int. - 1 \<le> d \<Longrightarrow> d < 0 \<Longrightarrow> d = - 1" by simp
  consider (none) "0 \<le> x" "0 \<le> y" "0 \<le> z"
    | (x) "x < 0" "0 \<le> y" "0 \<le> z"
    | (y) "0 \<le> x" "y < 0" "0 \<le> z"
    | (z) "0 \<le> x" "0 \<le> y" "z < 0"
    | (two) "(x < 0 \<and> y < 0) \<or> (x < 0 \<and> z < 0) \<or> (y < 0 \<and> z < 0)"
    by linarith
  then show ?thesis
  proof cases
    case none
    with assms(1) show ?thesis
      by (auto simp: reshape_def Let_def split: if_splits)
  next
    case x
    with assms(2) have "x = - 1" by (simp add: neg)
    with assms(1) x show ?thesis
      by (auto simp: reshape_def Let_def mod_eq_0_iff_dvd split: if_splits)
  next
    case y
    with assms(3) have "y = - 1" by (simp add: neg)
    with assms(1) y show ?thesis
      by (auto simp: reshape_def Let_def mod_eq_0_iff_dvd split: if_splits)
  next
    case z
    with assms(4) have "z = - 1" by (simp add: neg)
    with assms(1) z show ?thesis
      by (auto simp: reshape_def Let_def mod_eq_0_iff_dvd split: if_splits)
  next
    case two
    with assms(1) show ?thesis
      by (auto simp: reshape_def Let_def split: if_splits)
  qed
qed

lemma py_getitem_nat: "k < length xs \<Longrightarrow> py_getitem xs (int k) = Inr (xs ! k)"
  by (simp add: py_getitem_def)

lemma take_3: "3 \<le> length xs \<Longrightarrow> take 3 xs = [xs ! 0, xs ! 1, xs ! 2]"
  by (cases xs; cases "tl xs"; cases "tl (tl xs)") auto

text \<open>
  C9, as the specification states it: a map file of fewer than 1024 bytes fails with
  a distinct MalformedHeader condition. The code does not test the length of the
  header and has no such condition: three files that end within the header raise
  three different exceptions, each of them one that other defects raise too
  (ValueError from \<^verbatim>\<open>numpy.frombuffer\<close>, IndexError from the missing word 3, and
  the NameError that the file of C3 raises).
\<close>

theorem short_header_counterexample:
  "read_map module_globals map_file_3_bytes =
     ([], Inl (ValueError ''buffer size must be a multiple of element size'')) \<and>
   read_map module_globals map_file_8_bytes =
     ([], Inl (IndexError ''index out of range'')) \<and>
   read_map module_globals map_file_16_bytes =
     ([], Inl (NameError ''dtype_mode''))"
  by code_simp

text \<open>
  C9, amended: a map file of fewer than 1024 bytes is not rejected for its length as
  such. When its length is not a multiple of 4, \<^verbatim>\<open>read_map\<close> raises the ValueError
  of \<^verbatim>\<open>numpy.frombuffer\<close>; when it is a multiple of 4 below 16, word 3 is missing
  and IndexError is raised. This holds whatever the globals bind. Nothing is said of
  longer files that end within the header.
\<close>

theorem short_header_raises:
  assumes "length file < 1024"
  shows "(length file mod 4 \<noteq> 0 \<longrightarrow>
      read_map g file =
        ([], Inl (ValueError ''buffer size must be a multiple of element size''))) \<and>
    (length file mod 4 = 0 \<and> length file < 16 \<longrightarrow>
      read_map g file = ([], Inl (IndexError ''index out of range'')))"
proof (intro conjI impI)
  from assms have t: "take 1024 file = file" by simp
  {
    assume "length file mod 4 \<noteq> 0"
    then have "frombuffer_int32 (take 1024 file) =
        Inl (ValueError ''buffer size must be a multiple of element size'')"
      unfolding t by (rule frombuffer_int32_odd)
    then show "read_map g file =
        ([], Inl (ValueError ''buffer size must be a multiple of element size''))"
      by (simp add: read_map_def)
  }
  {
    assume a: "length file mod 4 = 0 \<and> length file < 16"
    then have "length file mod 4 = 0" by simp
    from frombuffer_int32_even [OF this]
    obtain hw where hw: "frombuffer_int32 (take 1024 file) = Inr hw"
      and len: "length hw = length file div 4"
      unfolding t by blast
    from a len have "length hw \<le> 3" by presburger
    then have "py_getitem hw 3 = Inl (IndexError ''index out of range'')"
      by (simp add: py_getitem_def)
    with hw show "read_map g file = ([], Inl (IndexError ''index out of range''))"
      by (simp add: read_map_def)
  }
qed

theorem short_header_raises_witness:
  "length map_file_3_bytes < 1024 \<and> length map_file_3_bytes mod 4 \<noteq> 0 \<and>
   read_map module_globals map_file_3_bytes =
     ([], Inl (ValueError ''buffer size must be a multiple of element size'')) \<and>
   length map_file_8_bytes < 1024 \<and> length map_file_8_bytes mod 4 = 0 \<and>
   length map_file_8_bytes < 16 \<and>
   read_map module_globals map_file_8_bytes = ([], Inl (IndexError ''index out of range''))"
proof -
  have 3: "length map_file_3_bytes < 1024" "length map_file_3_bytes mod 4 \<noteq> 0"
    by (simp_all add: map_file_3_bytes_def)
  have 8: "length map_file_8_bytes < 1024" "length map_file_8_bytes mod 4 = 0"
    "length map_file_8_bytes < 16"
    by (simp_all add: map_file_8_bytes_def)
  from short_header_raises [OF 3(1), of module_globals]
    short_header_raises [OF 8(1), of module_globals] 3 8
  show ?thesis by simp
qed

text \<open>
  C4, as the specification states it: a map file whose payload is not a multiple of
  the element size times the extents fails with a distinct TruncatedPayload
  condition. The code has no such condition. As the module stands, the file cut
  within its payload raises the NameError that the complete file raises; with the
  two names bound, it raises the ValueError of \<^verbatim>\<open>numpy.frombuffer\<close>, which a
  file of three bytes raises for its header.
\<close>

theorem truncated_payload_counterexample:
  "read_map module_globals map_file_truncated = ([], Inl (NameError ''dtype_mode'')) \<and>
   read_map module_globals map_file_234 = ([], Inl (NameError ''dtype_mode'')) \<and>
   read_map bound_globals map_file_truncated =
     ([], Inl (ValueError ''buffer size must be a multiple of element size'')) \<and>
   read_map bound_globals map_file_3_bytes =
     ([], Inl (ValueError ''buffer size must be a multiple of element size''))"
  by code_simp

text \<open>
  C4, amended: take a map file whose header decodes to the words \<open>hw\<close> with all
  24 words that are read, a mode that selects an element type, and no extent below
  -1 (numpy reads a negative extent as a dimension to infer). If the number of bytes
  after the header and the symmetry block is not a multiple of the element size
  times the product of the three extents, \<^verbatim>\<open>read_map\<close> does not return: it raises.
  With the name of line 160 bound, what it raises is the ValueError of
  \<^verbatim>\<open>numpy.frombuffer\<close> or of \<^verbatim>\<open>reshape\<close>; there is no condition of its own for
  a truncated payload.
\<close>

theorem truncated_payload_raises:
  assumes hdr: "frombuffer_int32 (take 1024 file) = Inr hw"
    and len: "24 \<le> length hw"
    and mode: "py_getitem mode_table (hw ! 3) = Inr name"
    and dt: "numpy_dtype name = Inr dt"
    and ext: "- 1 \<le> hw ! 0" "- 1 \<le> hw ! 1" "- 1 \<le> hw ! 2"
    and trunc: "\<not> (int (itemsize dt) * (hw ! 0 * hw ! 1 * hw ! 2))
                  dvd int (length (payload_bytes hw file))"
  shows "(\<exists>e. snd (read_map g file) = Inl e) \<and>
    (g_dtype_mode g \<noteq> None \<longrightarrow> (\<exists>m. snd (read_map g file) = Inl (ValueError m)))"
proof (cases "g_dtype_mode g")
  case None
  with hdr len mode show ?thesis
    by (simp add: read_map_def Let_def py_getitem_def)
next
  case (Some dm)
  define data where "data = payload_bytes hw file"
  have g3: "py_getitem hw 3 = Inr (hw ! 3)" and g23: "py_getitem hw 23 = Inr (hw ! 23)"
    using len by (simp_all add: py_getitem_def)
  have t3: "take 3 hw = [hw ! 0, hw ! 1, hw ! 2]"
    using len by (intro take_3) simp
  have bad: "\<exists>m. (case frombuffer data dt of
        Inl e \<Rightarrow> Inl e
      | Inr a \<Rightarrow> (case reshape a (take 3 hw) of Inl e \<Rightarrow> Inl e | Inr b \<Rightarrow> Inr b)) =
      Inl (ValueError m)"
  proof (cases "frombuffer data dt")
    case (Inl e)
    then show ?thesis by (auto dest: frombuffer_Inl)
  next
    case (Inr a)
    then have m: "length data mod itemsize dt = 0"
      and n: "length (nd_items a) = length data div itemsize dt"
      by (auto dest: frombuffer_Inr)
    show ?thesis
    proof (cases "reshape a (take 3 hw)")
      case (Inl e)
      with Inr show ?thesis by (auto dest: reshape_Inl)
    next
      case r: (Inr b)
      with t3 ext have "(hw ! 0 * hw ! 1 * hw ! 2) dvd int (length (nd_items a))"
        by (intro reshape_dvd [of a _ _ _ b]) simp_all
      then have d1: "(int (itemsize dt) * (hw ! 0 * hw ! 1 * hw ! 2))
          dvd (int (itemsize dt) * int (length data div itemsize dt))"
        unfolding n by (rule mult_dvd_mono [OF dvd_refl])
      from m have d2: "int (itemsize dt) * int (length data div itemsize dt) = int (length data)"
        by (metis mod_eq_0_iff_dvd dvd_mult_div_cancel of_nat_mult)
      from d1 have "(int (itemsize dt) * (hw ! 0 * hw ! 1 * hw ! 2)) dvd int (length data)"
        unfolding d2 .
      with trunc show ?thesis
        unfolding data_def by blast
    qed
  qed
  have "snd (read_map g file) =
      (case (case frombuffer data dt of
        Inl e \<Rightarrow> Inl e
      | Inr a \<Rightarrow> (case reshape a (take 3 hw) of Inl e \<Rightarrow> Inl e | Inr b \<Rightarrow> Inr b)) of
        Inl e \<Rightarrow> Inl e
      | Inr b \<Rightarrow> (case g_dx g of None \<Rightarrow> Inl (NameError ''dx'') | Some dx \<Rightarrow> Inr (b, dx)))"
    using hdr g3 g23 mode dt Some
    by (simp add: read_map_def Let_def data_def payload_bytes_def
        split: sum.splits option.splits)
  with bad Some show ?thesis by auto
qed

text \<open>The file of C3 cut after 23 of its 24 items, with and without the names
  bound: 92 bytes are not a multiple of 4 times 24.\<close>

theorem truncated_payload_raises_witness:
  "frombuffer_int32 (take 1024 map_file_23_items) = Inr ([2, 3, 4, 2] @ replicate 252 0) \<and>
   py_getitem mode_table (([2, 3, 4, 2] @ replicate 252 0) ! 3) = Inr ''float32'' \<and>
   numpy_dtype ''float32'' = Inr Float32 \<and>
   \<not> (int (itemsize Float32) * (2 * 3 * 4))
       dvd int (length (payload_bytes ([2, 3, 4, 2] @ replicate 252 0) map_file_23_items)) \<and>
   (\<exists>e. snd (read_map module_globals map_file_23_items) = Inl e) \<and>
   (\<exists>m. snd (read_map bound_globals map_file_23_items) = Inl (ValueError m))"
proof -
  define hw :: "int list" where "hw = [2, 3, 4, 2] @ replicate 252 0"
  have hdr: "frombuffer_int32 (take 1024 map_file_23_items) = Inr hw"
    unfolding hw_def by code_simp
  have len: "24 \<le> length hw" by (simp add: hw_def)
  have w: "hw ! 0 = 2" "hw ! 1 = 3" "hw ! 2 = 4" "hw ! 3 = 2"
    by (simp_all add: hw_def)
  have w23: "hw ! 23 = 0"
    by (simp add: hw_def nth_append)
  have mode: "py_getitem mode_table (hw ! 3) = Inr ''float32''"
    by (simp add: w py_getitem_def mode_table_def)
  have dt: "numpy_dtype ''float32'' = Inr Float32"
    by (simp add: numpy_dtype_def)
  have ext: "- 1 \<le> hw ! 0" "- 1 \<le> hw ! 1" "- 1 \<le> hw ! 2"
    unfolding w by simp_all
  have pl: "length (payload_bytes hw map_file_23_items) = 92"
    by (simp add: payload_bytes_def w23 map_file_23_items_def map_header_234_def
        map_payload_24_def)
  have trunc: "\<not> (int (itemsize Float32) * (hw ! 0 * hw ! 1 * hw ! 2))
                  dvd int (length (payload_bytes hw map_file_23_items))"
    unfolding pl w by simp
  have b: "g_dtype_mode bound_globals \<noteq> None"
    by (simp add: bound_globals_def)
  have trunc': "\<not> (int (itemsize Float32) * (2 * 3 * 4))
                  dvd int (length (payload_bytes hw map_file_23_items))"
    unfolding pl by simp
  from truncated_payload_raises [OF hdr len mode dt ext trunc, of module_globals]
    truncated_payload_raises [OF hdr len mode dt ext trunc, of bound_globals]
    hdr mode dt trunc' b
  show ?thesis unfolding hw_def [symmetric] by blast
qed


end
